theory Spec2Isabelle
  imports Main "HOL-Library.Sublist"
begin

section \<open>Shared notions\<close>

text \<open>
  A Go \<open>error\<close> value is modelled by its message. A function that returns
  \<open>(T, error)\<close> becomes a function into \<open>error + T\<close>, with \<open>Inl\<close> the error.
  A function that can also panic returns a \<open>result\<close>.
\<close>

datatype error = Err string

datatype 'a result = Ok 'a | Fail error | Panic string

text \<open>
  \<open>http.Header\<close> is a map from canonical header names to the list of values
  received under that name; a name that is absent has no values.
  \<open>Header.Get\<close> returns the first value, or the empty string.
\<close>

type_synonym Header = "string \<Rightarrow> string list"

definition Header_Get :: "Header \<Rightarrow> string \<Rightarrow> string" where
  "Header_Get h key = (case h key of [] \<Rightarrow> [] | v # _ \<Rightarrow> v)"

text \<open>
  \<open>http.Response\<close>, as far as the code reads it: the status code, the headers, and
  what \<open>ioutil.ReadAll\<close> returns on the body (the bytes, or a read error).
\<close>

record http_Response =
  StatusCode :: int
  resp_Header :: Header
  Body :: "error + string"

section \<open>Package authzserver: the metadata provider\<close>

subsection \<open>Configuration\<close>

text \<open>
  The configuration structs of \<open>authConfig\<close>, with the fields that
  \<open>metadata_provider.go\<close> reads. The type \<open>'u\<close> stands for the URL values
  (\<open>config.URL\<close>, \<open>*url.URL\<close>) of the standard library.
\<close>

datatype AuthorizationServerType = AuthorizationServerTypeSelf | AuthorizationServerTypeExternal

record FlyteClientConfig =
  ClientID :: string
  RedirectURI :: string
  Scopes :: "string list"

record ThirdPartyConfigOptions =
  FlyteClientConfig :: FlyteClientConfig

record 'u ExternalAuthorizationServer =
  ext_BaseURL :: 'u

record 'u OAuth2Options =
  AuthServerType :: AuthorizationServerType
  ExternalAuthServer :: "'u ExternalAuthorizationServer"
  ThirdParty :: ThirdPartyConfigOptions

record 'u OpenIDOptions =
  oidc_BaseURL :: 'u

record 'u UserAuthConfig =
  OpenID :: "'u OpenIDOptions"

record 'u Config =
  HTTPPublicUri :: 'u
  AppAuth :: "'u OAuth2Options"
  UserAuth :: "'u UserAuthConfig"
  GrpcAuthorizationHeader :: string

subsection \<open>Responses\<close>

record OAuth2MetadataResponse =
  Issuer :: string
  AuthorizationEndpoint :: string
  TokenEndpoint :: string
  ResponseTypesSupported :: "string list"
  ScopesSupported :: "string list"
  TokenEndpointAuthMethodsSupported :: "string list"
  JwksUri :: string
  CodeChallengeMethodsSupported :: "string list"
  GrantTypesSupported :: "string list"

record FlyteClientResponse =
  ClientId :: string
  RedirectUri :: string
  resp_Scopes :: "string list"
  AuthorizationMetadataKey :: string

subsection \<open>What the file uses and does not define\<close>

text \<open>
  \<open>metadata_provider.go\<close> uses package-level values and helpers that are declared in
  other files of the package (\<open>authorizeRelativeUrl\<close>, \<open>tokenRelativeUrl\<close>,
  \<open>jsonWebKeysUrl\<close>, \<open>oauth2MetadataEndpoint\<close>, \<open>supportedGrantTypes\<close>,
  \<open>auth.ScopeAll\<close>, \<open>GetIssuer\<close>, \<open>unmarshalResp\<close>), the URL operations of
  \<open>net/url\<close> and the HTTP client of \<open>net/http\<close>. They are parameters of the model,
  collected in one record. \<open>http_Get\<close> is the network: it answers a URL with a
  response or with a transport error.
\<close>

record 'u authz_env =
  ResolveReference :: "'u \<Rightarrow> 'u \<Rightarrow> 'u"
  url_String :: "'u \<Rightarrow> string"
  http_Get :: "string \<Rightarrow> error + http_Response"
  GetIssuer :: "'u Config \<Rightarrow> string"
  unmarshalResp :: "http_Response \<Rightarrow> string \<Rightarrow> error + OAuth2MetadataResponse"
  authorizeRelativeUrl :: 'u
  tokenRelativeUrl :: 'u
  jsonWebKeysUrl :: 'u
  oauth2MetadataEndpoint :: 'u
  supportedGrantTypes :: "string list"
  ScopeAll :: string

subsection \<open>OAuth2Metadata and FlyteClient\<close>

text \<open>
  \<open>OAuth2Metadata\<close> returns its Go result together with the list of URLs it has
  requested with \<open>http.Get\<close>, in order: the network traffic of the call.
\<close>

definition externalMetadataURL :: "'u authz_env \<Rightarrow> 'u Config \<Rightarrow> 'u" where
  "externalMetadataURL env cfg =
     (if length (url_String env (ext_BaseURL (ExternalAuthServer (AppAuth cfg)))) > 0
      then ResolveReference env (ext_BaseURL (ExternalAuthServer (AppAuth cfg)))
             (oauth2MetadataEndpoint env)
      else ResolveReference env (oidc_BaseURL (OpenID (UserAuth cfg)))
             (oauth2MetadataEndpoint env))"

definition OAuth2Metadata ::
  "'u authz_env \<Rightarrow> 'u Config \<Rightarrow> (error + OAuth2MetadataResponse) \<times> string list" where
  "OAuth2Metadata env cfg =
     (case AuthServerType (AppAuth cfg) of
        AuthorizationServerTypeSelf \<Rightarrow>
          (Inr \<lparr> Issuer = GetIssuer env cfg,
                 AuthorizationEndpoint =
                   url_String env (ResolveReference env (HTTPPublicUri cfg) (authorizeRelativeUrl env)),
                 TokenEndpoint =
                   url_String env (ResolveReference env (HTTPPublicUri cfg) (tokenRelativeUrl env)),
                 ResponseTypesSupported = [''code'', ''token'', ''code token''],
                 ScopesSupported = [ScopeAll env],
                 TokenEndpointAuthMethodsSupported = [''client_secret_basic''],
                 JwksUri =
                   url_String env (ResolveReference env (HTTPPublicUri cfg) (jsonWebKeysUrl env)),
                 CodeChallengeMethodsSupported = [''S256''],
                 GrantTypesSupported = supportedGrantTypes env \<rparr>,
           [])
      | _ \<Rightarrow>
          (let u = url_String env (externalMetadataURL env cfg) in
           case http_Get env u of
             Inl err \<Rightarrow> (Inl err, [u])
           | Inr response \<Rightarrow>
               (case Body response of
                  Inl err \<Rightarrow> (Inl err, [u])
                | Inr raw \<Rightarrow>
                    (case unmarshalResp env response raw of
                       Inl err \<Rightarrow> (Inl err, [u])
                     | Inr resp \<Rightarrow> (Inr resp, [u])))))"

definition FlyteClient :: "'u Config \<Rightarrow> error + FlyteClientResponse" where
  "FlyteClient cfg =
     Inr \<lparr> ClientId = ClientID (FlyteClientConfig (ThirdParty (AppAuth cfg))),
            RedirectUri = RedirectURI (FlyteClientConfig (ThirdParty (AppAuth cfg))),
            resp_Scopes = Scopes (FlyteClientConfig (ThirdParty (AppAuth cfg))),
            AuthorizationMetadataKey = GrpcAuthorizationHeader cfg \<rparr>"

section \<open>Package entrypoints: the serve command\<close>

subsection \<open>Configuration and the authentication context\<close>

text \<open>
  \<open>config.ServerConfig\<close> with the fields and methods that the serve command reads;
  \<open>GetHostAddress\<close> and \<open>GetGrpcHostAddress\<close> are methods of the configuration
  and are modelled by their results. \<open>'o\<close> is the type of the OAuth options, which the
  command only hands on. An \<open>interfaces.AuthenticationContext\<close> is read through
  \<open>GetUserInfoUrl\<close>, which may return nil; the interface value itself is nil when
  authentication is off, so the functions below take an optional context.
\<close>

record SslOptions =
  CertificateFile :: string
  KeyFile :: string

record 'o ServerSecurityOptions =
  Secure :: bool
  Ssl :: SslOptions
  UseAuth :: bool
  Oauth :: 'o

record 'o ServerConfig =
  Security :: "'o ServerSecurityOptions"
  KubeConfig :: string
  Master :: string
  GetHostAddress :: string
  GetGrpcHostAddress :: string

record 'u AuthenticationContext =
  GetUserInfoUrl :: "'u option"

subsection \<open>newGRPCServer\<close>

text \<open>
  The interceptors are named after the expressions that build them; \<open>'c\<close> is the type
  of the authentication context they close over. \<open>grpc_middleware.ChainUnaryServer\<close>
  makes one interceptor that runs its arguments from left to right: the chain is the
  list of its arguments.
\<close>

datatype 'c UnaryServerInterceptor =
    grpc_prometheus_UnaryServerInterceptor
  | AuthenticationCustomMetadataInterceptor 'c
  | grpcauth_UnaryServerInterceptor_AuthenticationInterceptor 'c
  | AuthenticationLoggingInterceptor

datatype 'c ServerOption =
    StreamInterceptor_grpc_prometheus
  | UnaryInterceptor "'c UnaryServerInterceptor list"
  | Creds string

record 'c grpc_Server =
  serverOpts :: "'c ServerOption list"
  grpc_prometheus_registered :: bool
  AdminServiceServer :: "(string \<times> string) option"

definition chainedUnaryInterceptors ::
  "'o ServerConfig \<Rightarrow> 'c \<Rightarrow> 'c UnaryServerInterceptor list" where
  "chainedUnaryInterceptors cfg authContext =
     (if UseAuth (Security cfg)
      then [grpc_prometheus_UnaryServerInterceptor,
            AuthenticationCustomMetadataInterceptor authContext,
            grpcauth_UnaryServerInterceptor_AuthenticationInterceptor authContext,
            AuthenticationLoggingInterceptor]
      else [grpc_prometheus_UnaryServerInterceptor])"

definition newGRPCServer ::
  "'o ServerConfig \<Rightarrow> 'c \<Rightarrow> 'c ServerOption list \<Rightarrow> error + 'c grpc_Server" where
  "newGRPCServer cfg authContext opts =
     Inr \<lparr> serverOpts =
              [StreamInterceptor_grpc_prometheus,
               UnaryInterceptor (chainedUnaryInterceptors cfg authContext)] @ opts,
            grpc_prometheus_registered = True,
            AdminServiceServer = Some (KubeConfig cfg, Master cfg) \<rparr>"

subsection \<open>The HTTP request multiplexer of net/http\<close>

text \<open>
  \<open>http.ServeMux\<close>: the registered patterns with their handlers (\<open>mux_m\<close>, in the
  order of registration), the patterns that end in a slash, longest first (\<open>mux_es\<close>),
  and whether some pattern names a host (\<open>mux_hosts\<close>). \<open>Handle\<close> panics on an empty
  pattern and on a pattern registered twice. \<open>mux_handler\<close> is the method
  \<open>handler(host, path)\<close>, which picks the handler of a request: an exact match first,
  then the longest registered prefix that ends in a slash; \<open>None\<close> stands for the
  not-found handler. The cleaning of the path and the redirects that \<open>ServeMux\<close> does
  before it calls \<open>handler\<close> are not modelled.
\<close>

record 'h ServeMux =
  mux_m :: "(string \<times> 'h) list"
  mux_es :: "(string \<times> 'h) list"
  mux_hosts :: bool

definition NewServeMux :: "'h ServeMux" where
  "NewServeMux = \<lparr> mux_m = [], mux_es = [], mux_hosts = False \<rparr>"

fun appendSorted :: "(string \<times> 'h) list \<Rightarrow> string \<times> 'h \<Rightarrow> (string \<times> 'h) list" where
  "appendSorted [] e = [e]"
| "appendSorted (x # es) e =
     (if length (fst x) < length (fst e) then e # x # es else x # appendSorted es e)"

definition mux_Handle :: "'h ServeMux \<Rightarrow> string \<Rightarrow> 'h \<Rightarrow> 'h ServeMux result" where
  "mux_Handle mux pattern h =
     (if pattern = [] then Panic ''http: invalid pattern''
      else if map_of (mux_m mux) pattern \<noteq> None
      then Panic (''http: multiple registrations for '' @ pattern)
      else Ok \<lparr> mux_m = mux_m mux @ [(pattern, h)],
                mux_es = (if last pattern = CHR ''/''
                          then appendSorted (mux_es mux) (pattern, h) else mux_es mux),
                mux_hosts = (mux_hosts mux \<or> hd pattern \<noteq> CHR ''/'') \<rparr>)"

fun match_es :: "(string \<times> 'h) list \<Rightarrow> string \<Rightarrow> 'h option" where
  "match_es [] path = None"
| "match_es (e # es) path = (if prefix (fst e) path then Some (snd e) else match_es es path)"

definition mux_match :: "'h ServeMux \<Rightarrow> string \<Rightarrow> 'h option" where
  "mux_match mux path =
     (case map_of (mux_m mux) path of
        Some h \<Rightarrow> Some h
      | None \<Rightarrow> match_es (mux_es mux) path)"

definition mux_handler :: "'h ServeMux \<Rightarrow> string \<Rightarrow> string \<Rightarrow> 'h option" where
  "mux_handler mux host path =
     (case (if mux_hosts mux then mux_match mux (host @ path) else None) of
        Some h \<Rightarrow> Some h
      | None \<Rightarrow> mux_match mux path)"

fun then_do :: "'a result \<Rightarrow> ('a \<Rightarrow> 'b result) \<Rightarrow> 'b result" where
  "then_do (Ok x) f = f x"
| "then_do (Fail e) f = Fail e"
| "then_do (Panic msg) f = Panic msg"

subsection \<open>newHTTPServer\<close>

text \<open>
  The handlers that \<open>newHTTPServer\<close> registers, named after the expressions that build
  them, and the gateway multiplexer of grpc-gateway (\<open>runtime.ServeMux\<close>): its options,
  the handlers added with \<open>Handle\<close>, and the endpoint that
  \<open>RegisterAdminServiceHandlerFromEndpoint\<close> has connected it to.
\<close>

datatype Marshaler = ProtoMarshaller

datatype 'c ServeMuxOption =
    WithMarshalerOption string Marshaler
  | WithMetadata_HttpRequestCookieToMetadataHandler 'c

datatype DialOption = WithInsecure | WithTransportCredentials string string

datatype Pattern = NewPattern int "int list" "string list" string

datatype gateway_handler = CorsDecorator_healthCheckFunc

record 'c runtime_ServeMux =
  gw_options :: "'c ServeMuxOption list"
  gw_handlers :: "(string \<times> Pattern \<times> gateway_handler) list"
  gw_endpoint :: "(string \<times> DialOption list) option"

datatype 'c handler =
    healthCheckFunc
  | HandleOpenapiSpec
  | RefreshTokensIfExists 'c "'c handler"
  | LoginHandler 'c
  | CallbackHandler 'c
  | MeEndpointHandler 'c
  | MetadataEndpointRedirectHandler 'c
  | gwmux "'c runtime_ServeMux"

text \<open>
  What the serve command uses and its file does not define: the constant
  \<open>auth.MetadataEndpoint\<close>, the \<open>String\<close> method of URLs, and the calls that reach
  outside the process: registering the gateway with its endpoint, reading the
  certificate files, building the authentication context, binding an address, and the
  way a serving call ends, if it ends. \<open>os_bind\<close> is the answer of the operating
  system to a bind, given the addresses that this process has bound so far: \<open>None\<close>
  when the address is now bound, the error otherwise.
\<close>

datatype serve_result = Blocks | Returns "error option"

record ('u, 'o) serve_env =
  MetadataEndpoint :: string
  URL_String :: "'u \<Rightarrow> string"
  RegisterAdminServiceHandlerFromEndpoint :: "string \<Rightarrow> DialOption list \<Rightarrow> error option"
  GetSslCredentials :: "string \<Rightarrow> string \<Rightarrow> error + (string \<times> string)"
  NewAuthenticationContext :: "'o \<Rightarrow> error + 'u AuthenticationContext"
  os_bind :: "string list \<Rightarrow> string \<Rightarrow> error option"
  Serve :: "string \<Rightarrow> serve_result"

text \<open>
  \<open>net.Listen("tcp", addr)\<close>, given the addresses that the process has bound so far.
  An address that the process holds already cannot be bound again and the call fails
  with "address already in use", unless its port is empty or \<open>0\<close>, for which the
  system picks a free port at each call. In every other case the operating system
  decides.
\<close>

definition port_of :: "string \<Rightarrow> string" where
  "port_of addr = rev (takeWhile (\<lambda>c. c \<noteq> CHR '':'') (rev addr))"

definition net_Listen :: "('u, 'o) serve_env \<Rightarrow> string list \<Rightarrow> string \<Rightarrow> error option" where
  "net_Listen env bound addr =
     (if addr \<in> set bound \<and> port_of addr \<noteq> [] \<and> port_of addr \<noteq> ''0''
      then Some (Err (''listen tcp '' @ addr @ '': bind: address already in use''))
      else os_bind env bound addr)"

definition errors_Wrap :: "error \<Rightarrow> string \<Rightarrow> error" where
  "errors_Wrap err msg = (case err of Err cause \<Rightarrow> Err (msg @ '': '' @ cause))"

definition octet_stream :: "'c ServeMuxOption" where
  "octet_stream = WithMarshalerOption ''application/octet-stream'' ProtoMarshaller"

definition noopPattern :: Pattern where
  "noopPattern = NewPattern 1 [3, 0] [] []"

definition newHTTPServer ::
  "('u, 'o) serve_env \<Rightarrow> 'o ServerConfig \<Rightarrow> 'u AuthenticationContext option \<Rightarrow> string \<Rightarrow>
   DialOption list \<Rightarrow> ('u AuthenticationContext option) handler ServeMux result" where
  "newHTTPServer env cfg authContext grpcAddress grpcConnectionOpts =
     then_do (mux_Handle NewServeMux ''/healthcheck'' healthCheckFunc) (\<lambda>mux.
     then_do (mux_Handle mux ''/api/v1/openapi'' HandleOpenapiSpec) (\<lambda>mux.
     then_do
       (if UseAuth (Security cfg) then
          then_do (mux_Handle mux ''/login''
                     (RefreshTokensIfExists authContext (LoginHandler authContext))) (\<lambda>mux.
          then_do (mux_Handle mux ''/callback'' (CallbackHandler authContext)) (\<lambda>mux.
          then_do
            (case authContext of
               None \<Rightarrow> Panic ''invalid memory address or nil pointer dereference''
             | Some ac \<Rightarrow>
                 (case GetUserInfoUrl ac of
                    None \<Rightarrow> Ok mux
                  | Some u \<Rightarrow>
                      if URL_String env u \<noteq> []
                      then mux_Handle mux ''/me'' (MeEndpointHandler authContext)
                      else Ok mux)) (\<lambda>mux.
          then_do (mux_Handle mux (MetadataEndpoint env)
                     (MetadataEndpointRedirectHandler authContext)) (\<lambda>mux.
          Ok (mux, \<lparr> gw_options =
                        [octet_stream,
                         WithMetadata_HttpRequestCookieToMetadataHandler authContext],
                      gw_handlers = [], gw_endpoint = None \<rparr>)))))
        else Ok (mux, \<lparr> gw_options = [octet_stream], gw_handlers = [], gw_endpoint = None \<rparr>))
       (\<lambda>(mux, gw).
          let gw = gw\<lparr> gw_handlers :=
                         gw_handlers gw @ [(''OPTIONS'', noopPattern, CorsDecorator_healthCheckFunc)] \<rparr>
          in case RegisterAdminServiceHandlerFromEndpoint env grpcAddress grpcConnectionOpts of
               Some err \<Rightarrow> Fail (errors_Wrap err ''error registering admin service'')
             | None \<Rightarrow>
                 mux_Handle mux ''/''
                   (gwmux (gw\<lparr> gw_endpoint := Some (grpcAddress, grpcConnectionOpts) \<rparr>)))))"

text \<open>
  The condition under which \<open>newHTTPServer\<close> installs the \<open>/me\<close> handler:
  \<open>authContext.GetUserInfoUrl() != nil && authContext.GetUserInfoUrl().String() != ""\<close>.
\<close>

definition userInfoUrl_configured ::
  "('u, 'o) serve_env \<Rightarrow> 'u AuthenticationContext option \<Rightarrow> bool" where
  "userInfoUrl_configured env c =
     (case c of
        None \<Rightarrow> False
      | Some ac \<Rightarrow> (case GetUserInfoUrl ac of None \<Rightarrow> False | Some u \<Rightarrow> URL_String env u \<noteq> []))"

subsection \<open>grpcHandlerFunc\<close>

text \<open>
  \<open>strings.Contains s substr\<close>: \<open>substr\<close> occurs in \<open>s\<close> at some position.
  \<open>grpcHandlerFunc\<close> returns a handler; the model gives, for a request, which of the
  two handlers that handler calls.
\<close>

fun strings_Contains :: "string \<Rightarrow> string \<Rightarrow> bool" where
  "strings_Contains [] substr = (substr = [])"
| "strings_Contains (c # s) substr = (prefix substr (c # s) \<or> strings_Contains s substr)"

record http_Request =
  Method :: string
  ProtoMajor :: int
  req_Header :: Header
  req_Host :: string
  req_Path :: string

datatype ('g, 'h) ServeHTTP = grpcServer_ServeHTTP 'g | otherHandler_ServeHTTP 'h

definition grpcHandlerFunc :: "'g \<Rightarrow> 'h \<Rightarrow> http_Request \<Rightarrow> ('g, 'h) ServeHTTP" where
  "grpcHandlerFunc grpcServer otherHandler r =
     (if ProtoMajor r = 2
         \<and> strings_Contains (Header_Get (req_Header r) ''Content-Type'') ''application/grpc''
      then grpcServer_ServeHTTP grpcServer
      else otherHandler_ServeHTTP otherHandler)"

subsection \<open>serveGatewayInsecure, serveGatewaySecure and the serve command\<close>

text \<open>
  A run of the serve command is the list of what the main goroutine has done to the
  network, in order, and how the run ends. The events are: an address has been bound;
  the goroutine that runs \<open>grpcServer.Serve\<close> on the bound listener has been started;
  the HTTP server has started to serve the router on its listener
  (\<open>http.ListenAndServe\<close> is \<open>net.Listen\<close> followed by \<open>Serve\<close>); the TLS server has
  started to serve on its listener. A run ends by returning (an error or nil), by a
  panic, or not at all, when the last serving call blocks for ever.
\<close>

record 'c http_Server =
  Addr :: string
  Handler :: "http_Request \<Rightarrow> ('c grpc_Server, 'c handler ServeMux) ServeHTTP"
  Certificates :: "string list"
  NextProtos :: "string list"

datatype 'c event =
    Listening string
  | go_grpcServer_Serve "'c grpc_Server" string
  | http_Serve "'c handler ServeMux" string
  | tls_Serve "'c http_Server"

datatype outcome = Serving | Returned "error option" | Panicked string

fun is_serving :: "'c event \<Rightarrow> bool" where
  "is_serving (Listening a) = False"
| "is_serving (go_grpcServer_Serve g a) = True"
| "is_serving (http_Serve h a) = True"
| "is_serving (tls_Serve s) = True"

fun is_listening :: "'c event \<Rightarrow> bool" where
  "is_listening (Listening a) = True"
| "is_listening (go_grpcServer_Serve g a) = False"
| "is_listening (http_Serve h a) = False"
| "is_listening (tls_Serve s) = False"

definition serve_outcome :: "serve_result \<Rightarrow> string \<Rightarrow> outcome" where
  "serve_outcome r msg =
     (case r of
        Blocks \<Rightarrow> Serving
      | Returns None \<Rightarrow> Returned None
      | Returns (Some err) \<Rightarrow> Returned (Some (errors_Wrap err msg)))"

definition serveGatewayInsecure ::
  "('u, 'o) serve_env \<Rightarrow> 'o ServerConfig \<Rightarrow>
   ('u AuthenticationContext option) event list \<times> outcome" where
  "serveGatewayInsecure env cfg =
     (case (if UseAuth (Security cfg)
            then (case NewAuthenticationContext env (Oauth (Security cfg)) of
                    Inl err \<Rightarrow> Inl err
                  | Inr ac \<Rightarrow> Inr (Some ac))
            else Inr None) of
        Inl err \<Rightarrow> ([], Returned (Some err))
      | Inr authContext \<Rightarrow>
          (case newGRPCServer cfg authContext [] of
             Inl err \<Rightarrow> ([], Returned (Some (errors_Wrap err ''failed to create GRPC server'')))
           | Inr grpcServer \<Rightarrow>
               (case net_Listen env [] (GetGrpcHostAddress cfg) of
                  Some err \<Rightarrow>
                    ([], Returned (Some (errors_Wrap err
                           (''failed to listen on GRPC port: '' @ GetGrpcHostAddress cfg))))
                | None \<Rightarrow>
                    (let started = [Listening (GetGrpcHostAddress cfg),
                                    go_grpcServer_Serve grpcServer (GetGrpcHostAddress cfg)]
                     in case newHTTPServer env cfg authContext (GetGrpcHostAddress cfg)
                               [WithInsecure] of
                          Fail err \<Rightarrow> (started, Returned (Some err))
                        | Panic msg \<Rightarrow> (started, Panicked msg)
                        | Ok httpServer \<Rightarrow>
                            (case net_Listen env [GetGrpcHostAddress cfg] (GetHostAddress cfg) of
                               Some err \<Rightarrow>
                                 (started,
                                  Returned (Some (errors_Wrap err ''failed to Start HTTP Server'')))
                             | None \<Rightarrow>
                                 (started @ [Listening (GetHostAddress cfg),
                                             http_Serve httpServer (GetHostAddress cfg)],
                                  serve_outcome (Serve env (GetHostAddress cfg))
                                    ''failed to Start HTTP Server''))))))"

definition serveGatewaySecure ::
  "('u, 'o) serve_env \<Rightarrow> 'o ServerConfig \<Rightarrow>
   ('u AuthenticationContext option) event list \<times> outcome" where
  "serveGatewaySecure env cfg =
     (case GetSslCredentials env (CertificateFile (Ssl (Security cfg)))
             (KeyFile (Ssl (Security cfg))) of
        Inl err \<Rightarrow> ([], Returned (Some err))
      | Inr (certPool, cert) \<Rightarrow>
     (case (if UseAuth (Security cfg)
            then (case NewAuthenticationContext env (Oauth (Security cfg)) of
                    Inl err \<Rightarrow> Inl err
                  | Inr ac \<Rightarrow> Inr (Some ac))
            else Inr None) of
        Inl err \<Rightarrow> ([], Returned (Some err))
      | Inr authContext \<Rightarrow>
          (case newGRPCServer cfg authContext [Creds cert] of
             Inl err \<Rightarrow> ([], Returned (Some (errors_Wrap err ''failed to create GRPC server'')))
           | Inr grpcServer \<Rightarrow>
               (case newHTTPServer env cfg authContext (GetHostAddress cfg)
                       [WithTransportCredentials (GetHostAddress cfg) certPool] of
                  Fail err \<Rightarrow> ([], Returned (Some err))
                | Panic msg \<Rightarrow> ([], Panicked msg)
                | Ok httpServer \<Rightarrow>
                    (case net_Listen env [] (GetHostAddress cfg) of
                       Some err \<Rightarrow> ([], Panicked (case err of Err msg \<Rightarrow> msg))
                     | None \<Rightarrow>
                         ([Listening (GetHostAddress cfg),
                           tls_Serve \<lparr> Addr = GetHostAddress cfg,
                                        Handler = grpcHandlerFunc grpcServer httpServer,
                                        Certificates = [cert],
                                        NextProtos = [''h2''] \<rparr>],
                          serve_outcome (Serve env (GetHostAddress cfg))
                            ''failed to Start HTTP/2 Server''))))))"

definition serveCmd_RunE ::
  "('u, 'o) serve_env \<Rightarrow> 'o ServerConfig \<Rightarrow>
   ('u AuthenticationContext option) event list \<times> outcome" where
  "serveCmd_RunE env serverConfig =
     (if Secure (Security serverConfig) then serveGatewaySecure env serverConfig
      else serveGatewayInsecure env serverConfig)"

text \<open>
  A run has aborted when it ended with an error or with a panic.
\<close>

definition aborted :: "outcome \<Rightarrow> bool" where
  "aborted out =
     (case out of
        Serving \<Rightarrow> False
      | Returned None \<Rightarrow> False
      | Returned (Some err) \<Rightarrow> True
      | Panicked msg \<Rightarrow> True)"

section \<open>Package auth: the userinfo request\<close>

text \<open>
  Modelled from the spec: \<open>postToIdp\<close>, the function behind \<open>FetchUserInfo\<close>. Of this
  function the sources at hand hold the test only (\<open>TestPostToIdp\<close>). The specification says
  that it sends the access token as a bearer credential to the userinfo URL, fails with
  \<open>IdentityProviderRejected\<close>, carrying the status code, when the status is not 200,
  fails with \<open>IdentityProviderMalformed\<close> when the body is not JSON or does not match
  the schema, and otherwise decodes the five claims \<open>sub\<close>, \<open>name\<close>,
  \<open>preferred_username\<close>, \<open>given_name\<close> and \<open>family_name\<close>, ignoring every other
  field. A body matches the schema when it is an object in which each of the five
  claims is a string. The client is the injected transport: as the one of the test, it
  answers every request with a response. The body of a response is given as the JSON
  parser reads it, \<open>None\<close> when it is not JSON.
\<close>

datatype json =
    JNull
  | JBool bool
  | JNumber int
  | JString string
  | JArray "json list"
  | JObject "(string \<times> json) list"

record UserInfoResponse =
  Sub :: string
  Name :: string
  PreferredUsername :: string
  GivenName :: string
  FamilyName :: string

datatype idp_error = IdentityProviderRejected int | IdentityProviderMalformed

record idp_Request =
  idp_URL :: string
  idp_Authorization :: string

record idp_Response =
  idp_StatusCode :: int
  idp_Body :: "json option"

definition string_field :: "(string \<times> json) list \<Rightarrow> string \<Rightarrow> string option" where
  "string_field members k = (case map_of members k of Some (JString s) \<Rightarrow> Some s | _ \<Rightarrow> None)"

definition decode_UserInfoResponse :: "json option \<Rightarrow> UserInfoResponse option" where
  "decode_UserInfoResponse body =
     (case body of
        Some (JObject members) \<Rightarrow>
          (case (string_field members ''sub'', string_field members ''name'',
                 string_field members ''preferred_username'', string_field members ''given_name'',
                 string_field members ''family_name'') of
             (Some s, Some n, Some p, Some g, Some f) \<Rightarrow>
               Some \<lparr> Sub = s, Name = n, PreferredUsername = p, GivenName = g, FamilyName = f \<rparr>
           | _ \<Rightarrow> None)
      | _ \<Rightarrow> None)"

definition postToIdp ::
  "(idp_Request \<Rightarrow> idp_Response) \<Rightarrow> string \<Rightarrow> string \<Rightarrow> idp_error + UserInfoResponse" where
  "postToIdp client userInfoUrl accessToken =
     (let response = client \<lparr> idp_URL = userInfoUrl,
                               idp_Authorization = ''Bearer '' @ accessToken \<rparr>
      in if idp_StatusCode response \<noteq> 200
         then Inl (IdentityProviderRejected (idp_StatusCode response))
         else (case decode_UserInfoResponse (idp_Body response) of
                 None \<Rightarrow> Inl IdentityProviderMalformed
               | Some claims \<Rightarrow> Inr claims))"

section \<open>Concrete inputs\<close>

text \<open>
  A concrete instance of the parameters, over URLs written as strings, used to run the
  definitions: references are resolved by appending the path to the base, and the
  network knows three hosts, one that answers with a discovery document, one whose body
  does not parse, and one that cannot be reached.
\<close>

definition example_document :: OAuth2MetadataResponse where
  "example_document =
     \<lparr> Issuer = ''https://idp.example.com'',
        AuthorizationEndpoint = ''https://idp.example.com/authorize'',
        TokenEndpoint = ''https://idp.example.com/token'',
        ResponseTypesSupported = [''code''],
        ScopesSupported = [''openid'', ''profile''],
        TokenEndpointAuthMethodsSupported = [],
        JwksUri = [],
        CodeChallengeMethodsSupported = [],
        GrantTypesSupported = [''authorization_code''] \<rparr>"

definition example_network :: "string \<Rightarrow> error + http_Response" where
  "example_network u =
     (if u = ''https://idp.example.com/.well-known/oauth-authorization-server''
      then Inr \<lparr> StatusCode = 200, resp_Header = (\<lambda>k. []), Body = Inr ''document'' \<rparr>
      else if u = ''https://bad.example.com/.well-known/oauth-authorization-server''
      then Inr \<lparr> StatusCode = 200, resp_Header = (\<lambda>k. []), Body = Inr ''<html>'' \<rparr>
      else Inl (Err ''no such host''))"

definition example_env :: "string authz_env" where
  "example_env =
     \<lparr> ResolveReference = (\<lambda>base ref. base @ ref),
        url_String = (\<lambda>u. u),
        http_Get = example_network,
        GetIssuer = (\<lambda>cfg. HTTPPublicUri cfg),
        unmarshalResp = (\<lambda>response raw.
           if raw = ''document'' then Inr example_document
           else Inl (Err ''invalid character'')),
        authorizeRelativeUrl = ''/oauth2/authorize'',
        tokenRelativeUrl = ''/oauth2/token'',
        jsonWebKeysUrl = ''/oauth2/jwks'',
        oauth2MetadataEndpoint = ''/.well-known/oauth-authorization-server'',
        supportedGrantTypes = [''client_credentials'', ''refresh_token'', ''authorization_code''],
        ScopeAll = ''all'' \<rparr>"

definition example_cfg :: "AuthorizationServerType \<Rightarrow> string \<Rightarrow> string \<Rightarrow> string Config" where
  "example_cfg mode ext oidc =
     \<lparr> HTTPPublicUri = ''https://flyte.example.com'',
        AppAuth = \<lparr> AuthServerType = mode,
                     ExternalAuthServer = \<lparr> ext_BaseURL = ext \<rparr>,
                     ThirdParty = \<lparr> FlyteClientConfig =
                       \<lparr> ClientID = ''flytectl'',
                          RedirectURI = ''http://localhost:53593/callback'',
                          Scopes = [''all'', ''offline''] \<rparr> \<rparr> \<rparr>,
        UserAuth = \<lparr> OpenID = \<lparr> oidc_BaseURL = oidc \<rparr> \<rparr>,
        GrpcAuthorizationHeader = ''flyte-authorization'' \<rparr>"

text \<open>
  A concrete world for the serve command. The OAuth options are the userinfo URL, if
  one is configured, and building the authentication context succeeds; the certificate
  files are found under \<open>/certs\<close>; registering the gateway fails when \<open>reg\<close> is
  false; the addresses in \<open>busy\<close> are held by other processes and cannot be bound; a
  serving call never returns.
\<close>

definition example_serve_env :: "bool \<Rightarrow> string list \<Rightarrow> (string, string option) serve_env" where
  "example_serve_env reg busy =
     \<lparr> MetadataEndpoint = ''/config/v1/flyte_client'',
        URL_String = (\<lambda>u. u),
        RegisterAdminServiceHandlerFromEndpoint =
          (\<lambda>addr opts. if reg then None else Some (Err ''context deadline exceeded'')),
        GetSslCredentials =
          (\<lambda>certFile keyFile.
             if certFile = ''/certs/tls.crt'' \<and> keyFile = ''/certs/tls.key''
             then Inr (''pool'', ''cert'') else Inl (Err ''no such file or directory'')),
        NewAuthenticationContext = (\<lambda>userinfo. Inr \<lparr> GetUserInfoUrl = userinfo \<rparr>),
        os_bind = (\<lambda>bound addr. if addr \<in> set busy then Some (Err ''address already in use'')
                                 else None),
        Serve = (\<lambda>addr. Blocks) \<rparr>"

definition example_server_cfg :: "bool \<Rightarrow> bool \<Rightarrow> string option \<Rightarrow> (string option) ServerConfig" where
  "example_server_cfg secure auth userinfo =
     \<lparr> Security = \<lparr> Secure = secure,
                     Ssl = \<lparr> CertificateFile = ''/certs/tls.crt'', KeyFile = ''/certs/tls.key'' \<rparr>,
                     UseAuth = auth,
                     Oauth = userinfo \<rparr>,
        KubeConfig = [],
        Master = [],
        GetHostAddress = ''0.0.0.0:8088'',
        GetGrpcHostAddress = ''0.0.0.0:8089'' \<rparr>"

definition example_one_port_cfg :: "(string option) ServerConfig" where
  "example_one_port_cfg = (example_server_cfg False False None)\<lparr> GetGrpcHostAddress := ''0.0.0.0:8088'' \<rparr>"

definition example_userinfo_body :: json where
  "example_userinfo_body =
     JObject [(''sub'', JString ''abc123''),
              (''name'', JString ''John Smith''),
              (''preferred_username'', JString ''jsmith@company.com''),
              (''given_name'', JString ''John''),
              (''family_name'', JString ''Smith'')]"

section \<open>Properties of the metadata provider\<close>

text \<open>
  C9. For every configuration, \<open>FlyteClient\<close> returns no error, and the descriptor it
  returns has the client id, the redirect URI and the scopes of the configured Flyte
  client and the configured gRPC authorization header as its authorization-metadata key.
\<close>

theorem FlyteClient_projection:
  "FlyteClient cfg =
     Inr \<lparr> ClientId = ClientID (FlyteClientConfig (ThirdParty (AppAuth cfg))),
            RedirectUri = RedirectURI (FlyteClientConfig (ThirdParty (AppAuth cfg))),
            resp_Scopes = Scopes (FlyteClientConfig (ThirdParty (AppAuth cfg))),
            AuthorizationMetadataKey = GrpcAuthorizationHeader cfg \<rparr>
   \<and> (\<nexists>e. FlyteClient cfg = Inl e)"
  by (simp add: FlyteClient_def)

text \<open>
  C3. In \<open>self\<close> mode \<open>OAuth2Metadata\<close> returns a document and requests no URL. The
  document has \<open>code_challenge_methods_supported = ["S256"]\<close>,
  \<open>response_types_supported = ["code", "token", "code token"]\<close>,
  \<open>token_endpoint_auth_methods_supported = ["client_secret_basic"]\<close>, and its
  authorize, token and JWKS endpoints are the three relative URLs of the package, each
  resolved against the configured public URI.
\<close>

theorem OAuth2Metadata_self:
  assumes "AuthServerType (AppAuth cfg) = AuthorizationServerTypeSelf"
  shows "\<exists>doc. OAuth2Metadata env cfg = (Inr doc, [])
           \<and> CodeChallengeMethodsSupported doc = [''S256'']
           \<and> ResponseTypesSupported doc = [''code'', ''token'', ''code token'']
           \<and> TokenEndpointAuthMethodsSupported doc = [''client_secret_basic'']
           \<and> AuthorizationEndpoint doc =
                 url_String env (ResolveReference env (HTTPPublicUri cfg) (authorizeRelativeUrl env))
           \<and> TokenEndpoint doc =
                 url_String env (ResolveReference env (HTTPPublicUri cfg) (tokenRelativeUrl env))
           \<and> JwksUri doc =
                 url_String env (ResolveReference env (HTTPPublicUri cfg) (jsonWebKeysUrl env))"
  using assms by (simp add: OAuth2Metadata_def)

theorem OAuth2Metadata_self_witness:
  "\<exists>doc. OAuth2Metadata example_env (example_cfg AuthorizationServerTypeSelf [] []) = (Inr doc, [])
         \<and> CodeChallengeMethodsSupported doc = [''S256'']
         \<and> ResponseTypesSupported doc = [''code'', ''token'', ''code token'']
         \<and> TokenEndpointAuthMethodsSupported doc = [''client_secret_basic'']
         \<and> AuthorizationEndpoint doc = ''https://flyte.example.com/oauth2/authorize''
         \<and> TokenEndpoint doc = ''https://flyte.example.com/oauth2/token''
         \<and> JwksUri doc = ''https://flyte.example.com/oauth2/jwks''"
  using OAuth2Metadata_self [of "example_cfg AuthorizationServerTypeSelf [] []" example_env]
  by (simp add: example_cfg_def example_env_def)

text \<open>
  C4, as the claim states it, fails. The configuration below is in \<open>self\<close> mode and
  configures the scopes \<open>all\<close> and \<open>offline\<close>; the document returned lists the
  single scope \<open>all\<close>.
\<close>

theorem OAuth2Metadata_scopes_counterexample:
  "AuthServerType (AppAuth (example_cfg AuthorizationServerTypeSelf [] [])) = AuthorizationServerTypeSelf
   \<and> Scopes (FlyteClientConfig (ThirdParty (AppAuth (example_cfg AuthorizationServerTypeSelf [] []))))
       = [''all'', ''offline'']
   \<and> map_sum id ScopesSupported
         (fst (OAuth2Metadata example_env (example_cfg AuthorizationServerTypeSelf [] [])))
       = Inr [''all'']
   \<and> map_sum id ScopesSupported
         (fst (OAuth2Metadata example_env (example_cfg AuthorizationServerTypeSelf [] [])))
       \<noteq> Inr (Scopes (FlyteClientConfig (ThirdParty
                 (AppAuth (example_cfg AuthorizationServerTypeSelf [] [])))))"
  by (simp add: OAuth2Metadata_def example_cfg_def example_env_def)

text \<open>
  C4, amended. In \<open>self\<close> mode the \<open>scopes_supported\<close> field of the document is the
  one-element list holding the package constant \<open>auth.ScopeAll\<close>, whatever scopes the
  configuration gives.
\<close>

theorem OAuth2Metadata_self_scopes:
  assumes "AuthServerType (AppAuth cfg) = AuthorizationServerTypeSelf"
  shows "map_sum id ScopesSupported (fst (OAuth2Metadata env cfg)) = Inr [ScopeAll env]"
  using assms by (simp add: OAuth2Metadata_def)

theorem OAuth2Metadata_self_scopes_witness:
  "map_sum id ScopesSupported
     (fst (OAuth2Metadata example_env (example_cfg AuthorizationServerTypeSelf [] [])))
   = Inr [''all'']"
  using OAuth2Metadata_self_scopes [of "example_cfg AuthorizationServerTypeSelf [] []" example_env]
  by (simp add: example_cfg_def example_env_def)

text \<open>
  C6. Outside \<open>self\<close> mode \<open>OAuth2Metadata\<close> requests exactly one URL: the metadata
  endpoint resolved against the base URL of the external authorization server when that
  base URL is not empty, and against the base URL of the OpenID provider otherwise. A
  transport error, a read error on the body and an error of \<open>unmarshalResp\<close> are
  returned as they are; otherwise the result is the document that \<open>unmarshalResp\<close>
  decoded, unchanged.
\<close>

theorem OAuth2Metadata_external:
  assumes "AuthServerType (AppAuth cfg) \<noteq> AuthorizationServerTypeSelf"
  shows "snd (OAuth2Metadata env cfg) =
           [url_String env
              (ResolveReference env
                 (if url_String env (ext_BaseURL (ExternalAuthServer (AppAuth cfg))) \<noteq> []
                  then ext_BaseURL (ExternalAuthServer (AppAuth cfg))
                  else oidc_BaseURL (OpenID (UserAuth cfg)))
                 (oauth2MetadataEndpoint env))]
         \<and> fst (OAuth2Metadata env cfg) =
             (case http_Get env (hd (snd (OAuth2Metadata env cfg))) of
                Inl err \<Rightarrow> Inl err
              | Inr response \<Rightarrow>
                  (case Body response of
                     Inl err \<Rightarrow> Inl err
                   | Inr raw \<Rightarrow> unmarshalResp env response raw))"
proof -
  obtain u where u: "u = url_String env (externalMetadataURL env cfg)" by simp
  have mode: "AuthServerType (AppAuth cfg) = AuthorizationServerTypeExternal"
    using assms by (cases "AuthServerType (AppAuth cfg)") simp_all
  have fetched: "snd (OAuth2Metadata env cfg) = [u]"
    using mode u
    by (simp add: OAuth2Metadata_def Let_def split: sum.splits)
  have res: "fst (OAuth2Metadata env cfg) =
               (case http_Get env u of
                  Inl err \<Rightarrow> Inl err
                | Inr response \<Rightarrow>
                    (case Body response of
                       Inl err \<Rightarrow> Inl err
                     | Inr raw \<Rightarrow> unmarshalResp env response raw))"
    using mode u
    by (simp add: OAuth2Metadata_def Let_def split: sum.splits)
  have url: "u = url_String env
              (ResolveReference env
                 (if url_String env (ext_BaseURL (ExternalAuthServer (AppAuth cfg))) \<noteq> []
                  then ext_BaseURL (ExternalAuthServer (AppAuth cfg))
                  else oidc_BaseURL (OpenID (UserAuth cfg)))
                 (oauth2MetadataEndpoint env))"
    using u by (simp add: externalMetadataURL_def)
  show ?thesis using fetched res url by simp
qed

theorem OAuth2Metadata_external_witness:
  "OAuth2Metadata example_env
     (example_cfg AuthorizationServerTypeExternal ''https://idp.example.com'' ''https://okta.example.com'')
   = (Inr example_document, [''https://idp.example.com/.well-known/oauth-authorization-server''])
   \<and> OAuth2Metadata example_env
       (example_cfg AuthorizationServerTypeExternal [] ''https://idp.example.com'')
     = (Inr example_document, [''https://idp.example.com/.well-known/oauth-authorization-server''])
   \<and> OAuth2Metadata example_env
       (example_cfg AuthorizationServerTypeExternal ''https://bad.example.com'' [])
     = (Inl (Err ''invalid character''),
        [''https://bad.example.com/.well-known/oauth-authorization-server''])
   \<and> OAuth2Metadata example_env
       (example_cfg AuthorizationServerTypeExternal ''https://down.example.com'' [])
     = (Inl (Err ''no such host''),
        [''https://down.example.com/.well-known/oauth-authorization-server''])"
proof -
  let ?c1 = "example_cfg AuthorizationServerTypeExternal ''https://idp.example.com'' ''https://okta.example.com''"
  let ?c2 = "example_cfg AuthorizationServerTypeExternal [] ''https://idp.example.com''"
  let ?c3 = "example_cfg AuthorizationServerTypeExternal ''https://bad.example.com'' []"
  let ?c4 = "example_cfg AuthorizationServerTypeExternal ''https://down.example.com'' []"
  have m: "\<And>b1 b2. AuthServerType (AppAuth (example_cfg AuthorizationServerTypeExternal b1 b2))
                 \<noteq> AuthorizationServerTypeSelf"
    by (simp add: example_cfg_def)
  have 1: "OAuth2Metadata example_env ?c1
           = (Inr example_document, [''https://idp.example.com/.well-known/oauth-authorization-server''])"
    using OAuth2Metadata_external [where cfg = "?c1" and env = example_env] m
    by (simp add: prod_eq_iff example_cfg_def example_env_def example_network_def)
  have 2: "OAuth2Metadata example_env ?c2
           = (Inr example_document, [''https://idp.example.com/.well-known/oauth-authorization-server''])"
    using OAuth2Metadata_external [where cfg = "?c2" and env = example_env] m
    by (simp add: prod_eq_iff example_cfg_def example_env_def example_network_def)
  have 3: "OAuth2Metadata example_env ?c3
           = (Inl (Err ''invalid character''),
              [''https://bad.example.com/.well-known/oauth-authorization-server''])"
    using OAuth2Metadata_external [where cfg = "?c3" and env = example_env] m
    by (simp add: prod_eq_iff example_cfg_def example_env_def example_network_def)
  have 4: "OAuth2Metadata example_env ?c4
           = (Inl (Err ''no such host''),
              [''https://down.example.com/.well-known/oauth-authorization-server''])"
    using OAuth2Metadata_external [where cfg = "?c4" and env = example_env] m
    by (simp add: prod_eq_iff example_cfg_def example_env_def example_network_def)
  show ?thesis using 1 2 3 4 by simp
qed

section \<open>Properties of the serve command\<close>


lemma strings_Contains_sublist: "strings_Contains s substr = sublist substr s"
  by (induction s) (auto simp: sublist_Cons_right)

lemma newHTTPServer_Ok:
  assumes "newHTTPServer env cfg c addr opts = Ok mux"
  shows "\<exists>gw. mux_m mux =
           [(''/healthcheck'', healthCheckFunc), (''/api/v1/openapi'', HandleOpenapiSpec)]
           @ (if UseAuth (Security cfg)
              then [(''/login'', RefreshTokensIfExists c (LoginHandler c)),
                    (''/callback'', CallbackHandler c)]
                   @ (if userInfoUrl_configured env c then [(''/me'', MeEndpointHandler c)] else [])
                   @ [(MetadataEndpoint env, MetadataEndpointRedirectHandler c)]
              else [])
           @ [(''/'', gwmux gw)]
         \<and> mux_es mux =
             (if UseAuth (Security cfg) \<and> last (MetadataEndpoint env) = CHR ''/''
              then [(MetadataEndpoint env, MetadataEndpointRedirectHandler c)] else [])
             @ [(''/'', gwmux gw)]
         \<and> mux_hosts mux = (UseAuth (Security cfg) \<and> hd (MetadataEndpoint env) \<noteq> CHR ''/'')
         \<and> gw_options gw = (if UseAuth (Security cfg) then [octet_stream, WithMetadata_HttpRequestCookieToMetadataHandler c] else [octet_stream])
         \<and> gw_endpoint gw = Some (addr, opts)
         \<and> RegisterAdminServiceHandlerFromEndpoint env addr opts = None
         \<and> (UseAuth (Security cfg) \<longrightarrow> c \<noteq> None \<and> MetadataEndpoint env \<noteq> [] \<and> MetadataEndpoint env \<noteq> ''/'')"
  using assms
  apply (simp add: newHTTPServer_def mux_Handle_def NewServeMux_def userInfoUrl_configured_def Let_def
      split: if_splits option.splits)
  apply auto
  done

lemma newHTTPServer_register_fails:
  assumes "RegisterAdminServiceHandlerFromEndpoint env addr opts \<noteq> None"
  shows "newHTTPServer env cfg c addr opts \<noteq> Ok mux"
  using newHTTPServer_Ok [of env cfg c addr opts mux] assms by auto


lemma mux_handler_exact:
  assumes "\<not> mux_hosts mux" and "map_of (mux_m mux) path = Some h"
  shows "mux_handler mux host path = Some h"
  using assms by (simp add: mux_handler_def mux_match_def)

lemma mux_handler_subtree:
  assumes "\<not> mux_hosts mux" and "map_of (mux_m mux) path = None"
  shows "mux_handler mux host path = match_es (mux_es mux) path"
  using assms by (simp add: mux_handler_def mux_match_def)

text \<open>
  C1. With authentication on, the unary interceptor chain that \<open>newGRPCServer\<close> installs
  is, in this order, the metrics interceptor, the custom-metadata interceptor, the
  authentication interceptor and the logging interceptor. With authentication off the
  chain is the metrics interceptor alone: no authentication interceptor is in it.
\<close>

theorem newGRPCServer_interceptor_chain:
  "newGRPCServer cfg authContext opts =
     Inr \<lparr> serverOpts =
              StreamInterceptor_grpc_prometheus
              # UnaryInterceptor
                  (if UseAuth (Security cfg)
                   then [grpc_prometheus_UnaryServerInterceptor,
                         AuthenticationCustomMetadataInterceptor authContext,
                         grpcauth_UnaryServerInterceptor_AuthenticationInterceptor authContext,
                         AuthenticationLoggingInterceptor]
                   else [grpc_prometheus_UnaryServerInterceptor])
              # opts,
            grpc_prometheus_registered = True,
            AdminServiceServer = Some (KubeConfig cfg, Master cfg) \<rparr>
   \<and> (\<not> UseAuth (Security cfg) \<longrightarrow>
        (\<forall>c. grpcauth_UnaryServerInterceptor_AuthenticationInterceptor c
               \<notin> set (chainedUnaryInterceptors cfg authContext)))"
  by (simp add: newGRPCServer_def chainedUnaryInterceptors_def)

theorem newGRPCServer_interceptor_chain_witness:
  "(\<exists>srv. newGRPCServer (example_server_cfg False True None) (Some \<lparr> GetUserInfoUrl = None :: string option \<rparr>) [] = Inr srv
      \<and> serverOpts srv =
          [StreamInterceptor_grpc_prometheus,
           UnaryInterceptor
             [grpc_prometheus_UnaryServerInterceptor,
              AuthenticationCustomMetadataInterceptor (Some \<lparr> GetUserInfoUrl = None \<rparr>),
              grpcauth_UnaryServerInterceptor_AuthenticationInterceptor (Some \<lparr> GetUserInfoUrl = None \<rparr>),
              AuthenticationLoggingInterceptor]])
   \<and> (\<exists>srv. newGRPCServer (example_server_cfg False False None) (None :: string AuthenticationContext option) [] = Inr srv
      \<and> serverOpts srv =
          [StreamInterceptor_grpc_prometheus,
           UnaryInterceptor [grpc_prometheus_UnaryServerInterceptor]])
   \<and> \<not> UseAuth (Security (example_server_cfg False False None))
   \<and> grpcauth_UnaryServerInterceptor_AuthenticationInterceptor (None :: string AuthenticationContext option)
        \<notin> set (chainedUnaryInterceptors (example_server_cfg False False None) None)"
  using newGRPCServer_interceptor_chain
          [of "example_server_cfg False True None" "Some \<lparr> GetUserInfoUrl = None :: string option \<rparr>" "[]"]
        newGRPCServer_interceptor_chain
          [of "example_server_cfg False False None" "None :: string AuthenticationContext option" "[]"]
  by (simp add: example_server_cfg_def)

text \<open>
  C2. The handler that \<open>grpcHandlerFunc\<close> builds hands a request to the gRPC server
  exactly when its protocol major version is 2 and the value that \<open>Header.Get\<close> gives
  for \<open>Content-Type\<close>, which is the first value of that header, contains
  \<open>application/grpc\<close>, and to the HTTP router otherwise. When the certificates load,
  the authentication context (if authentication is on) is built, the router is built
  and the host address is bound, the run of \<open>serveGatewaySecure\<close> binds that one
  address and serves on it, over TLS with the loaded certificate, the handler
  \<open>grpcHandlerFunc grpcServer httpServer\<close> of the gRPC server and the router just
  built: both kinds of request share that one listener. In every other case the run
  binds and serves nothing.
\<close>

theorem grpcHandlerFunc_dispatch:
  "grpcHandlerFunc g h r =
     (if ProtoMajor r = 2
         \<and> sublist ''application/grpc'' (Header_Get (req_Header r) ''Content-Type'')
      then grpcServer_ServeHTTP g else otherHandler_ServeHTTP h)
   \<and> (\<forall>certPool cert c grpcServer httpServer.
         GetSslCredentials env (CertificateFile (Ssl (Security cfg)))
             (KeyFile (Ssl (Security cfg))) = Inr (certPool, cert)
         \<and> (case c of
               Some ac \<Rightarrow> UseAuth (Security cfg)
                          \<and> NewAuthenticationContext env (Oauth (Security cfg)) = Inr ac
             | None \<Rightarrow> \<not> UseAuth (Security cfg))
         \<and> newGRPCServer cfg c [Creds cert] = Inr grpcServer
         \<and> newHTTPServer env cfg c (GetHostAddress cfg)
               [WithTransportCredentials (GetHostAddress cfg) certPool] = Ok httpServer
         \<and> net_Listen env [] (GetHostAddress cfg) = None
         \<longrightarrow> serveGatewaySecure env cfg =
               ([Listening (GetHostAddress cfg),
                 tls_Serve \<lparr> Addr = GetHostAddress cfg,
                              Handler = grpcHandlerFunc grpcServer httpServer,
                              Certificates = [cert],
                              NextProtos = [''h2''] \<rparr>],
                serve_outcome (Serve env (GetHostAddress cfg)) ''failed to Start HTTP/2 Server''))
   \<and> (fst (serveGatewaySecure env cfg) = []
      \<or> (\<exists>certPool cert c grpcServer httpServer.
            GetSslCredentials env (CertificateFile (Ssl (Security cfg)))
                (KeyFile (Ssl (Security cfg))) = Inr (certPool, cert)
          \<and> (case c of
                Some ac \<Rightarrow> UseAuth (Security cfg)
                           \<and> NewAuthenticationContext env (Oauth (Security cfg)) = Inr ac
              | None \<Rightarrow> \<not> UseAuth (Security cfg))
          \<and> newGRPCServer cfg c [Creds cert] = Inr grpcServer
          \<and> newHTTPServer env cfg c (GetHostAddress cfg)
                [WithTransportCredentials (GetHostAddress cfg) certPool] = Ok httpServer
          \<and> net_Listen env [] (GetHostAddress cfg) = None
          \<and> fst (serveGatewaySecure env cfg) =
                [Listening (GetHostAddress cfg),
                 tls_Serve \<lparr> Addr = GetHostAddress cfg,
                              Handler = grpcHandlerFunc grpcServer httpServer,
                              Certificates = [cert],
                              NextProtos = [''h2''] \<rparr>]))"
proof -
  let ?auth = "if UseAuth (Security cfg)
               then (case NewAuthenticationContext env (Oauth (Security cfg)) of
                       Inl err \<Rightarrow> Inl err
                     | Inr ac \<Rightarrow> Inr (Some ac))
               else Inr None"
  let ?ssl = "GetSslCredentials env (CertificateFile (Ssl (Security cfg)))
                (KeyFile (Ssl (Security cfg)))"
  let ?host = "GetHostAddress cfg"
  have d: "grpcHandlerFunc g h r =
     (if ProtoMajor r = 2
         \<and> sublist ''application/grpc'' (Header_Get (req_Header r) ''Content-Type'')
      then grpcServer_ServeHTTP g else otherHandler_ServeHTTP h)"
    by (simp add: grpcHandlerFunc_def strings_Contains_sublist)
  have authI: "?auth = Inr c"
    if "case c of
          Some ac \<Rightarrow> UseAuth (Security cfg)
                     \<and> NewAuthenticationContext env (Oauth (Security cfg)) = Inr ac
        | None \<Rightarrow> \<not> UseAuth (Security cfg)" for c
    using that by (auto split: option.splits)
  have authD: "case c of
          Some ac \<Rightarrow> UseAuth (Security cfg)
                     \<and> NewAuthenticationContext env (Oauth (Security cfg)) = Inr ac
        | None \<Rightarrow> \<not> UseAuth (Security cfg)"
    if "?auth = Inr c" for c
    using that by (auto split: if_splits sum.splits option.splits)
  have run: "serveGatewaySecure env cfg =
               ([Listening ?host,
                 tls_Serve \<lparr> Addr = ?host,
                              Handler = grpcHandlerFunc grpcServer httpServer,
                              Certificates = [cert],
                              NextProtos = [''h2''] \<rparr>],
                serve_outcome (Serve env ?host) ''failed to Start HTTP/2 Server'')"
    if "?ssl = Inr (certPool, cert)" "?auth = Inr c"
       "newGRPCServer cfg c [Creds cert] = Inr grpcServer"
       "newHTTPServer env cfg c ?host [WithTransportCredentials ?host certPool] = Ok httpServer"
       "net_Listen env [] ?host = None"
    for certPool cert c grpcServer httpServer
    unfolding serveGatewaySecure_def using that by (simp split del: if_split)
  have a: "\<forall>certPool cert c grpcServer httpServer.
         ?ssl = Inr (certPool, cert)
         \<and> (case c of
               Some ac \<Rightarrow> UseAuth (Security cfg)
                          \<and> NewAuthenticationContext env (Oauth (Security cfg)) = Inr ac
             | None \<Rightarrow> \<not> UseAuth (Security cfg))
         \<and> newGRPCServer cfg c [Creds cert] = Inr grpcServer
         \<and> newHTTPServer env cfg c ?host [WithTransportCredentials ?host certPool] = Ok httpServer
         \<and> net_Listen env [] ?host = None
         \<longrightarrow> serveGatewaySecure env cfg =
               ([Listening ?host,
                 tls_Serve \<lparr> Addr = ?host,
                              Handler = grpcHandlerFunc grpcServer httpServer,
                              Certificates = [cert],
                              NextProtos = [''h2''] \<rparr>],
                serve_outcome (Serve env ?host) ''failed to Start HTTP/2 Server'')"
    using run authI by blast
  have b: "fst (serveGatewaySecure env cfg) = []
      \<or> (\<exists>certPool cert c grpcServer httpServer.
            ?ssl = Inr (certPool, cert)
          \<and> (case c of
                Some ac \<Rightarrow> UseAuth (Security cfg)
                           \<and> NewAuthenticationContext env (Oauth (Security cfg)) = Inr ac
              | None \<Rightarrow> \<not> UseAuth (Security cfg))
          \<and> newGRPCServer cfg c [Creds cert] = Inr grpcServer
          \<and> newHTTPServer env cfg c ?host [WithTransportCredentials ?host certPool] = Ok httpServer
          \<and> net_Listen env [] ?host = None
          \<and> fst (serveGatewaySecure env cfg) =
                [Listening ?host,
                 tls_Serve \<lparr> Addr = ?host,
                              Handler = grpcHandlerFunc grpcServer httpServer,
                              Certificates = [cert],
                              NextProtos = [''h2''] \<rparr>])"
  proof (cases ?ssl)
    case (Inl err)
    then have "fst (serveGatewaySecure env cfg) = []"
      unfolding serveGatewaySecure_def by simp
    then show ?thesis by blast
  next
    case (Inr pc)
    obtain certPool cert where ssl: "?ssl = Inr (certPool, cert)"
      using Inr by (cases pc) simp
    show ?thesis
    proof (cases ?auth)
      case (Inl err)
      then have "fst (serveGatewaySecure env cfg) = []"
        unfolding serveGatewaySecure_def using ssl by (simp split del: if_split)
      then show ?thesis by blast
    next
      case (Inr c)
      note auth = Inr
      obtain grpcServer where gs: "newGRPCServer cfg c [Creds cert] = Inr grpcServer"
        by (simp add: newGRPCServer_def)
      show ?thesis
      proof (cases "newHTTPServer env cfg c ?host [WithTransportCredentials ?host certPool]")
        case (Ok httpServer)
        show ?thesis
        proof (cases "net_Listen env [] ?host")
          case None
          have "fst (serveGatewaySecure env cfg) =
                [Listening ?host,
                 tls_Serve \<lparr> Addr = ?host,
                              Handler = grpcHandlerFunc grpcServer httpServer,
                              Certificates = [cert],
                              NextProtos = [''h2''] \<rparr>]"
            using run [OF ssl auth gs Ok None] by simp
          then show ?thesis using ssl authD [OF auth] gs Ok None by blast
        next
          case (Some err)
          then have "fst (serveGatewaySecure env cfg) = []"
            unfolding serveGatewaySecure_def using ssl auth gs Ok by (simp split del: if_split)
          then show ?thesis by blast
        qed
      next
        case (Fail err)
        then have "fst (serveGatewaySecure env cfg) = []"
          unfolding serveGatewaySecure_def using ssl auth gs by (simp split del: if_split)
        then show ?thesis by blast
      next
        case (Panic msg)
        then have "fst (serveGatewaySecure env cfg) = []"
          unfolding serveGatewaySecure_def using ssl auth gs by (simp split del: if_split)
        then show ?thesis by blast
      qed
    qed
  qed
  show ?thesis using d a b by blast
qed

theorem grpcHandlerFunc_dispatch_witness:
  "grpcHandlerFunc ''grpcServer'' ''httpServer''
     \<lparr> Method = ''POST'', ProtoMajor = 2,
        req_Header = (\<lambda>k. if k = ''Content-Type'' then [''application/grpc+proto''] else []),
        req_Host = ''flyte.example.com'',
        req_Path = ''/flyteidl.service.AdminService/ListProjects'' \<rparr>
   = grpcServer_ServeHTTP ''grpcServer''
   \<and> grpcHandlerFunc ''grpcServer'' ''httpServer''
       \<lparr> Method = ''GET'', ProtoMajor = 2,
          req_Header = (\<lambda>k. if k = ''Content-Type'' then [''application/json''] else []),
          req_Host = ''flyte.example.com'', req_Path = ''/api/v1/projects'' \<rparr>
     = otherHandler_ServeHTTP ''httpServer''
   \<and> grpcHandlerFunc ''grpcServer'' ''httpServer''
       \<lparr> Method = ''POST'', ProtoMajor = 1,
          req_Header = (\<lambda>k. if k = ''Content-Type'' then [''application/grpc''] else []),
          req_Host = ''flyte.example.com'', req_Path = ''/api/v1/projects'' \<rparr>
     = otherHandler_ServeHTTP ''httpServer''
   \<and> (\<exists>grpcServer httpServer.
         newGRPCServer (example_server_cfg True True None) (Some \<lparr> GetUserInfoUrl = None \<rparr>)
           [Creds ''cert''] = Inr grpcServer
       \<and> newHTTPServer (example_serve_env True []) (example_server_cfg True True None)
           (Some \<lparr> GetUserInfoUrl = None \<rparr>) ''0.0.0.0:8088''
           [WithTransportCredentials ''0.0.0.0:8088'' ''pool''] = Ok httpServer
       \<and> serveGatewaySecure (example_serve_env True []) (example_server_cfg True True None)
         = ([Listening ''0.0.0.0:8088'',
             tls_Serve \<lparr> Addr = ''0.0.0.0:8088'',
                          Handler = grpcHandlerFunc grpcServer httpServer,
                          Certificates = [''cert''],
                          NextProtos = [''h2''] \<rparr>],
            Serving))
   \<and> (\<exists>grpcServer httpServer.
         newGRPCServer (example_server_cfg True False None)
           (None :: string AuthenticationContext option) [Creds ''cert''] = Inr grpcServer
       \<and> newHTTPServer (example_serve_env True []) (example_server_cfg True False None)
           None ''0.0.0.0:8088''
           [WithTransportCredentials ''0.0.0.0:8088'' ''pool''] = Ok httpServer
       \<and> serveGatewaySecure (example_serve_env True []) (example_server_cfg True False None)
         = ([Listening ''0.0.0.0:8088'',
             tls_Serve \<lparr> Addr = ''0.0.0.0:8088'',
                          Handler = grpcHandlerFunc grpcServer httpServer,
                          Certificates = [''cert''],
                          NextProtos = [''h2''] \<rparr>],
            Serving))
   \<and> fst (serveGatewaySecure (example_serve_env True [''0.0.0.0:8088''])
            (example_server_cfg True True None)) = []"
proof -
  let ?env = "example_serve_env True [] :: (string, string option) serve_env"
  let ?busy = "example_serve_env True [''0.0.0.0:8088''] :: (string, string option) serve_env"
  let ?on = "example_server_cfg True True None"
  let ?off = "example_server_cfg True False None"
  let ?c = "Some \<lparr> GetUserInfoUrl = None :: string option \<rparr>"
  let ?n = "None :: string AuthenticationContext option"
  let ?r1 = "\<lparr> Method = ''POST'', ProtoMajor = 2,
        req_Header = (\<lambda>k. if k = ''Content-Type'' then [''application/grpc+proto''] else []),
        req_Host = ''flyte.example.com'',
        req_Path = ''/flyteidl.service.AdminService/ListProjects'' \<rparr>"
  let ?r2 = "\<lparr> Method = ''GET'', ProtoMajor = 2,
          req_Header = (\<lambda>k. if k = ''Content-Type'' then [''application/json''] else []),
          req_Host = ''flyte.example.com'', req_Path = ''/api/v1/projects'' \<rparr>"
  let ?r3 = "\<lparr> Method = ''POST'', ProtoMajor = 1,
          req_Header = (\<lambda>k. if k = ''Content-Type'' then [''application/grpc''] else []),
          req_Host = ''flyte.example.com'', req_Path = ''/api/v1/projects'' \<rparr>"
  have 1: "grpcHandlerFunc ''grpcServer'' ''httpServer'' ?r1 = grpcServer_ServeHTTP ''grpcServer''"
    using grpcHandlerFunc_dispatch [of "''grpcServer''" "''httpServer''" ?r1 ?env ?on]
    by (simp add: Header_Get_def sublist_code(3))
  have 2: "grpcHandlerFunc ''grpcServer'' ''httpServer'' ?r2 = otherHandler_ServeHTTP ''httpServer''"
    using grpcHandlerFunc_dispatch [of "''grpcServer''" "''httpServer''" ?r2 ?env ?on]
    by (simp add: Header_Get_def sublist_code(3))
  have 3: "grpcHandlerFunc ''grpcServer'' ''httpServer'' ?r3 = otherHandler_ServeHTTP ''httpServer''"
    using grpcHandlerFunc_dispatch [of "''grpcServer''" "''httpServer''" ?r3 ?env ?on]
    by simp
  obtain g1 where g1: "newGRPCServer ?on ?c [Creds ''cert''] = Inr g1"
    by (simp add: newGRPCServer_def)
  obtain h1 where h1: "newHTTPServer ?env ?on ?c ''0.0.0.0:8088''
                         [WithTransportCredentials ''0.0.0.0:8088'' ''pool''] = Ok h1"
    by (simp add: newHTTPServer_def mux_Handle_def NewServeMux_def example_serve_env_def
          example_server_cfg_def)
  obtain g2 where g2: "newGRPCServer ?off ?n [Creds ''cert''] = Inr g2"
    by (simp add: newGRPCServer_def)
  obtain h2 where h2: "newHTTPServer ?env ?off ?n ''0.0.0.0:8088''
                         [WithTransportCredentials ''0.0.0.0:8088'' ''pool''] = Ok h2"
    by (simp add: newHTTPServer_def mux_Handle_def NewServeMux_def example_serve_env_def
          example_server_cfg_def)
  have 4: "serveGatewaySecure ?env ?on
         = ([Listening ''0.0.0.0:8088'',
             tls_Serve \<lparr> Addr = ''0.0.0.0:8088'', Handler = grpcHandlerFunc g1 h1,
                          Certificates = [''cert''], NextProtos = [''h2''] \<rparr>],
            Serving)"
    using grpcHandlerFunc_dispatch [of "''grpcServer''" "''httpServer''" ?r1 ?env ?on,
            THEN conjunct2, THEN conjunct1, rule_format, of "''pool''" "''cert''" ?c g1 h1] g1 h1
    by (simp add: example_serve_env_def example_server_cfg_def net_Listen_def serve_outcome_def)
  have 5: "serveGatewaySecure ?env ?off
         = ([Listening ''0.0.0.0:8088'',
             tls_Serve \<lparr> Addr = ''0.0.0.0:8088'', Handler = grpcHandlerFunc g2 h2,
                          Certificates = [''cert''], NextProtos = [''h2''] \<rparr>],
            Serving)"
    using grpcHandlerFunc_dispatch [of "''grpcServer''" "''httpServer''" ?r1 ?env ?off,
            THEN conjunct2, THEN conjunct1, rule_format, of "''pool''" "''cert''" ?n g2 h2] g2 h2
    by (simp add: example_serve_env_def example_server_cfg_def net_Listen_def serve_outcome_def)
  have 6: "fst (serveGatewaySecure ?busy ?on) = []"
    using grpcHandlerFunc_dispatch [of "''grpcServer''" "''httpServer''" ?r1 ?busy ?on]
    by (simp add: example_serve_env_def example_server_cfg_def net_Listen_def)
  show ?thesis using 1 2 3 4 5 6 g1 h1 g2 h2 by blast
qed

text \<open>
  C8. Whenever \<open>newHTTPServer\<close> returns a router, whether authentication is on or off,
  the router serves \<open>/healthcheck\<close> with the bare health handler and
  \<open>/api/v1/openapi\<close> with the bare OpenAPI handler, neither wrapped by an authentication
  handler, and every other rooted path goes to one of the authentication handlers or to
  the gateway multiplexer mounted at \<open>/\<close>. The metadata endpoint, a constant that
  the file does not define, is taken to be a rooted path.
\<close>

theorem newHTTPServer_open_endpoints:
  assumes "newHTTPServer env cfg c addr opts = Ok mux"
    and "hd (MetadataEndpoint env) = CHR ''/''"
  shows "mux_handler mux host ''/healthcheck'' = Some healthCheckFunc
       \<and> mux_handler mux host ''/api/v1/openapi'' = Some HandleOpenapiSpec
       \<and> (\<forall>path. prefix ''/'' path \<and> path \<noteq> ''/healthcheck'' \<and> path \<noteq> ''/api/v1/openapi''
            \<longrightarrow> (\<exists>h. mux_handler mux host path = Some h
                  \<and> (h = RefreshTokensIfExists c (LoginHandler c) \<or> h = CallbackHandler c
                     \<or> h = MeEndpointHandler c \<or> h = MetadataEndpointRedirectHandler c
                     \<or> (\<exists>gw. h = gwmux gw))))"
proof -
  from newHTTPServer_Ok [OF assms(1)] obtain gw where
    m: "mux_m mux =
           [(''/healthcheck'', healthCheckFunc), (''/api/v1/openapi'', HandleOpenapiSpec)]
           @ (if UseAuth (Security cfg)
              then [(''/login'', RefreshTokensIfExists c (LoginHandler c)),
                    (''/callback'', CallbackHandler c)]
                   @ (if userInfoUrl_configured env c then [(''/me'', MeEndpointHandler c)] else [])
                   @ [(MetadataEndpoint env, MetadataEndpointRedirectHandler c)]
              else [])
           @ [(''/'', gwmux gw)]"
    and es: "mux_es mux =
             (if UseAuth (Security cfg) \<and> last (MetadataEndpoint env) = CHR ''/''
              then [(MetadataEndpoint env, MetadataEndpointRedirectHandler c)] else [])
             @ [(''/'', gwmux gw)]"
    and hosts: "mux_hosts mux = (UseAuth (Security cfg) \<and> hd (MetadataEndpoint env) \<noteq> CHR ''/'')"
    by blast
  have nohosts: "\<not> mux_hosts mux" using hosts assms(2) by simp
  have h1: "mux_handler mux host ''/healthcheck'' = Some healthCheckFunc"
    by (rule mux_handler_exact [OF nohosts]) (simp add: m)
  have h2: "mux_handler mux host ''/api/v1/openapi'' = Some HandleOpenapiSpec"
    by (rule mux_handler_exact [OF nohosts]) (simp add: m)
  have h3: "\<exists>h. mux_handler mux host path = Some h
                  \<and> (h = RefreshTokensIfExists c (LoginHandler c) \<or> h = CallbackHandler c
                     \<or> h = MeEndpointHandler c \<or> h = MetadataEndpointRedirectHandler c
                     \<or> (\<exists>gw. h = gwmux gw))"
    if p: "prefix ''/'' path" "path \<noteq> ''/healthcheck''" "path \<noteq> ''/api/v1/openapi''" for path
  proof (cases "map_of (mux_m mux) path")
    case None
    have "match_es (mux_es mux) path = Some (MetadataEndpointRedirectHandler c)
          \<or> match_es (mux_es mux) path = Some (gwmux gw)"
      using p(1) by (simp add: es)
    then show ?thesis using mux_handler_subtree [OF nohosts None, of host] by auto
  next
    case (Some h)
    have "h = RefreshTokensIfExists c (LoginHandler c) \<or> h = CallbackHandler c
          \<or> h = MeEndpointHandler c \<or> h = MetadataEndpointRedirectHandler c \<or> h = gwmux gw"
      using Some p(2,3) by (auto simp: m split: if_splits)
    then show ?thesis using mux_handler_exact [OF nohosts Some, of host] by auto
  qed
  show ?thesis using h1 h2 h3 by blast
qed

theorem newHTTPServer_open_endpoints_witness:
  "\<exists>mux. newHTTPServer (example_serve_env True [])
            (example_server_cfg False True (Some ''https://idp.example.com/userinfo''))
            (Some \<lparr> GetUserInfoUrl = Some ''https://idp.example.com/userinfo'' \<rparr>)
            ''0.0.0.0:8089'' [WithInsecure] = Ok mux
         \<and> hd (MetadataEndpoint (example_serve_env True [])) = CHR ''/''
         \<and> mux_handler mux ''flyte.example.com'' ''/healthcheck'' = Some healthCheckFunc
         \<and> mux_handler mux ''flyte.example.com'' ''/api/v1/openapi'' = Some HandleOpenapiSpec
         \<and> (\<exists>gw. mux_handler mux ''flyte.example.com'' ''/api/v1/projects'' = Some (gwmux gw))
         \<and> mux_handler mux ''flyte.example.com'' ''/callback''
             = Some (CallbackHandler (Some \<lparr> GetUserInfoUrl = Some ''https://idp.example.com/userinfo'' \<rparr>))"
proof -
  let ?env = "example_serve_env True [] :: (string, string option) serve_env"
  let ?cfg = "example_server_cfg False True (Some ''https://idp.example.com/userinfo'')"
  let ?c = "Some \<lparr> GetUserInfoUrl = Some ''https://idp.example.com/userinfo'' \<rparr>"
  obtain mux where ok: "newHTTPServer ?env ?cfg ?c ''0.0.0.0:8089'' [WithInsecure] = Ok mux"
    by (simp add: newHTTPServer_def mux_Handle_def NewServeMux_def example_serve_env_def
          example_server_cfg_def)
  have root: "hd (MetadataEndpoint ?env) = CHR ''/''"
    by (simp add: example_serve_env_def)
  note routes = newHTTPServer_open_endpoints [OF ok root, of "''flyte.example.com''"]
  have g: "\<exists>gw. mux_handler mux ''flyte.example.com'' ''/api/v1/projects'' = Some (gwmux gw)"
    using ok
    by (auto simp add: newHTTPServer_def mux_Handle_def NewServeMux_def example_serve_env_def
          example_server_cfg_def mux_handler_def mux_match_def)
  have cb: "mux_handler mux ''flyte.example.com'' ''/callback'' = Some (CallbackHandler ?c)"
    using ok
    by (auto simp add: newHTTPServer_def mux_Handle_def NewServeMux_def example_serve_env_def
          example_server_cfg_def mux_handler_def mux_match_def)
  show ?thesis using ok root routes g cb by blast
qed

text \<open>
  C10. In the router that \<open>newHTTPServer\<close> returns, the \<open>/me\<close> handler is registered
  exactly when authentication is on and the authentication context has a userinfo URL
  that is neither nil nor empty; when it is not registered, a request for \<open>/me\<close> goes to
  the gateway multiplexer (the metadata endpoint being a rooted path other than
  \<open>/me\<close>). With authentication on, \<open>/login\<close>, \<open>/callback\<close> and the metadata
  endpoint are registered and the gateway translates cookies to metadata; with
  authentication off, the router holds the health, OpenAPI and gateway entries only, and
  the gateway has no cookie translation.
\<close>

theorem newHTTPServer_auth_handlers:
  assumes "newHTTPServer env cfg c addr opts = Ok mux"
  shows "((''/me'', MeEndpointHandler c) \<in> set (mux_m mux)
            \<longleftrightarrow> UseAuth (Security cfg)
                \<and> (\<exists>ac u. c = Some ac \<and> GetUserInfoUrl ac = Some u \<and> URL_String env u \<noteq> []))
       \<and> (\<not> (UseAuth (Security cfg)
               \<and> (\<exists>ac u. c = Some ac \<and> GetUserInfoUrl ac = Some u \<and> URL_String env u \<noteq> []))
            \<and> MetadataEndpoint env \<noteq> ''/me'' \<and> hd (MetadataEndpoint env) = CHR ''/''
            \<longrightarrow> (\<exists>gw. mux_handler mux host ''/me'' = Some (gwmux gw)))
       \<and> (UseAuth (Security cfg)
            \<longrightarrow> (''/login'', RefreshTokensIfExists c (LoginHandler c)) \<in> set (mux_m mux)
              \<and> (''/callback'', CallbackHandler c) \<in> set (mux_m mux)
              \<and> (MetadataEndpoint env, MetadataEndpointRedirectHandler c) \<in> set (mux_m mux)
              \<and> (\<exists>gw. (''/'', gwmux gw) \<in> set (mux_m mux)
                     \<and> gw_options gw =
                         [octet_stream, WithMetadata_HttpRequestCookieToMetadataHandler c]))
       \<and> (\<not> UseAuth (Security cfg)
            \<longrightarrow> (\<exists>gw. mux_m mux = [(''/healthcheck'', healthCheckFunc),
                                  (''/api/v1/openapi'', HandleOpenapiSpec),
                                  (''/'', gwmux gw)]
                     \<and> gw_options gw = [octet_stream]))"
proof -
  from newHTTPServer_Ok [OF assms(1)] obtain gw where
    m: "mux_m mux =
           [(''/healthcheck'', healthCheckFunc), (''/api/v1/openapi'', HandleOpenapiSpec)]
           @ (if UseAuth (Security cfg)
              then [(''/login'', RefreshTokensIfExists c (LoginHandler c)),
                    (''/callback'', CallbackHandler c)]
                   @ (if userInfoUrl_configured env c then [(''/me'', MeEndpointHandler c)] else [])
                   @ [(MetadataEndpoint env, MetadataEndpointRedirectHandler c)]
              else [])
           @ [(''/'', gwmux gw)]"
    and es: "mux_es mux =
             (if UseAuth (Security cfg) \<and> last (MetadataEndpoint env) = CHR ''/''
              then [(MetadataEndpoint env, MetadataEndpointRedirectHandler c)] else [])
             @ [(''/'', gwmux gw)]"
    and hosts: "mux_hosts mux = (UseAuth (Security cfg) \<and> hd (MetadataEndpoint env) \<noteq> CHR ''/'')"
    and gwo: "gw_options gw = (if UseAuth (Security cfg) then [octet_stream, WithMetadata_HttpRequestCookieToMetadataHandler c] else [octet_stream])"
    and ne: "UseAuth (Security cfg) \<longrightarrow> c \<noteq> None \<and> MetadataEndpoint env \<noteq> [] \<and> MetadataEndpoint env \<noteq> ''/''"
    by blast
  have conf: "userInfoUrl_configured env c
              \<longleftrightarrow> (\<exists>ac u. c = Some ac \<and> GetUserInfoUrl ac = Some u \<and> URL_String env u \<noteq> [])"
    by (auto simp: userInfoUrl_configured_def split: option.splits)
  have a: "(''/me'', MeEndpointHandler c) \<in> set (mux_m mux)
            \<longleftrightarrow> UseAuth (Security cfg) \<and> userInfoUrl_configured env c"
    by (auto simp: m)
  have b: "\<exists>gw. mux_handler mux host ''/me'' = Some (gwmux gw)"
    if n: "\<not> (UseAuth (Security cfg) \<and> userInfoUrl_configured env c)"
      and me: "MetadataEndpoint env \<noteq> ''/me''" and hd: "hd (MetadataEndpoint env) = CHR ''/''"
  proof -
    have nohosts: "\<not> mux_hosts mux" using hosts hd by simp
    have none: "map_of (mux_m mux) ''/me'' = None"
      using n me by (auto simp: m)
    have np: "UseAuth (Security cfg) \<Longrightarrow> last (MetadataEndpoint env) = CHR ''/''
               \<Longrightarrow> \<not> prefix (MetadataEndpoint env) ''/me''"
    proof
      assume u: "UseAuth (Security cfg)" and l: "last (MetadataEndpoint env) = CHR ''/''"
        and pr: "prefix (MetadataEndpoint env) ''/me''"
      from pr have "MetadataEndpoint env = [] \<or> MetadataEndpoint env = ''/''
                 \<or> MetadataEndpoint env = ''/m'' \<or> MetadataEndpoint env = ''/me''"
        by (auto simp: prefix_Cons)
      then show False using u l me ne by auto
    qed
    have "match_es (mux_es mux) ''/me'' = Some (gwmux gw)"
      using np by (auto simp: es)
    then show ?thesis using mux_handler_subtree [OF nohosts none, of host] by simp
  qed
  have c': "UseAuth (Security cfg)
            \<longrightarrow> (''/login'', RefreshTokensIfExists c (LoginHandler c)) \<in> set (mux_m mux)
              \<and> (''/callback'', CallbackHandler c) \<in> set (mux_m mux)
              \<and> (MetadataEndpoint env, MetadataEndpointRedirectHandler c) \<in> set (mux_m mux)
              \<and> (\<exists>gw. (''/'', gwmux gw) \<in> set (mux_m mux)
                     \<and> gw_options gw =
                         [octet_stream, WithMetadata_HttpRequestCookieToMetadataHandler c])"
    using gwo by (auto simp: m)
  have d: "\<not> UseAuth (Security cfg)
            \<longrightarrow> (\<exists>gw. mux_m mux = [(''/healthcheck'', healthCheckFunc),
                                  (''/api/v1/openapi'', HandleOpenapiSpec),
                                  (''/'', gwmux gw)]
                     \<and> gw_options gw = [octet_stream])"
    using gwo by (auto simp: m)
  show ?thesis using a b c' d conf by blast
qed

theorem newHTTPServer_auth_handlers_witness:
  "(\<exists>mux. newHTTPServer (example_serve_env True [])
            (example_server_cfg False True (Some ''https://idp.example.com/userinfo''))
            (Some \<lparr> GetUserInfoUrl = Some ''https://idp.example.com/userinfo'' \<rparr>)
            ''0.0.0.0:8089'' [WithInsecure] = Ok mux
         \<and> (''/me'', MeEndpointHandler (Some \<lparr> GetUserInfoUrl = Some ''https://idp.example.com/userinfo'' \<rparr>))
             \<in> set (mux_m mux)
         \<and> (''/login'', RefreshTokensIfExists (Some \<lparr> GetUserInfoUrl = Some ''https://idp.example.com/userinfo'' \<rparr>)
                          (LoginHandler (Some \<lparr> GetUserInfoUrl = Some ''https://idp.example.com/userinfo'' \<rparr>)))
             \<in> set (mux_m mux))
   \<and> (\<exists>mux gw. newHTTPServer (example_serve_env True [])
            (example_server_cfg False True None)
            (Some \<lparr> GetUserInfoUrl = None \<rparr>)
            ''0.0.0.0:8089'' [WithInsecure] = Ok mux
         \<and> (''/me'', MeEndpointHandler (Some \<lparr> GetUserInfoUrl = None \<rparr>)) \<notin> set (mux_m mux)
         \<and> mux_handler mux ''flyte.example.com'' ''/me'' = Some (gwmux gw))
   \<and> (\<exists>mux gw. newHTTPServer (example_serve_env True [])
            (example_server_cfg False False None) None
            ''0.0.0.0:8089'' [WithInsecure] = Ok mux
         \<and> mux_m mux = [(''/healthcheck'', healthCheckFunc),
                         (''/api/v1/openapi'', HandleOpenapiSpec),
                         (''/'', gwmux gw)]
         \<and> gw_options gw = [octet_stream])"
proof -
  let ?env = "example_serve_env True [] :: (string, string option) serve_env"
  let ?u = "''https://idp.example.com/userinfo''"
  let ?c1 = "Some \<lparr> GetUserInfoUrl = Some ?u \<rparr>"
  let ?c2 = "Some \<lparr> GetUserInfoUrl = None :: string option \<rparr>"
  obtain m1 where ok1: "newHTTPServer ?env (example_server_cfg False True (Some ?u)) ?c1
                          ''0.0.0.0:8089'' [WithInsecure] = Ok m1"
    by (simp add: newHTTPServer_def mux_Handle_def NewServeMux_def example_serve_env_def
          example_server_cfg_def)
  obtain m2 where ok2: "newHTTPServer ?env (example_server_cfg False True None) ?c2
                          ''0.0.0.0:8089'' [WithInsecure] = Ok m2"
    by (simp add: newHTTPServer_def mux_Handle_def NewServeMux_def example_serve_env_def
          example_server_cfg_def)
  obtain m3 where ok3: "newHTTPServer ?env (example_server_cfg False False None) None
                          ''0.0.0.0:8089'' [WithInsecure] = Ok m3"
    by (simp add: newHTTPServer_def mux_Handle_def NewServeMux_def example_serve_env_def
          example_server_cfg_def)
  have 1: "(''/me'', MeEndpointHandler ?c1) \<in> set (mux_m m1)
           \<and> (''/login'', RefreshTokensIfExists ?c1 (LoginHandler ?c1)) \<in> set (mux_m m1)"
    using newHTTPServer_auth_handlers [OF ok1, of "''flyte.example.com''"]
    by (simp add: example_serve_env_def example_server_cfg_def)
  have 2: "(''/me'', MeEndpointHandler ?c2) \<notin> set (mux_m m2)
           \<and> (\<exists>gw. mux_handler m2 ''flyte.example.com'' ''/me'' = Some (gwmux gw))"
    using newHTTPServer_auth_handlers [OF ok2, of "''flyte.example.com''"]
    by (simp add: example_serve_env_def example_server_cfg_def)
  have 3: "\<exists>gw. mux_m m3 = [(''/healthcheck'', healthCheckFunc),
                         (''/api/v1/openapi'', HandleOpenapiSpec),
                         (''/'', gwmux gw)]
         \<and> gw_options gw = [octet_stream]"
    using newHTTPServer_auth_handlers [OF ok3, of "''flyte.example.com''"]
    by (simp add: example_serve_env_def example_server_cfg_def)
  show ?thesis using ok1 ok2 ok3 1 2 3 by blast
qed

text \<open>
  C5, as the claim states it, fails in insecure mode. Below the HTTP address cannot be
  bound: the run returns the error, and by then it has bound the gRPC address and
  started the goroutine that serves gRPC on it.
\<close>

theorem serve_partial_listener_counterexample:
  "net_Listen (example_serve_env True [''0.0.0.0:8088'']) [''0.0.0.0:8089'']
     (GetHostAddress (example_server_cfg False False None))
   = Some (Err ''address already in use'')
   \<and> serveCmd_RunE (example_serve_env True [''0.0.0.0:8088''])
       (example_server_cfg False False None)
     = ([Listening ''0.0.0.0:8089'',
         go_grpcServer_Serve
           \<lparr> serverOpts = [StreamInterceptor_grpc_prometheus,
                            UnaryInterceptor [grpc_prometheus_UnaryServerInterceptor]],
              grpc_prometheus_registered = True,
              AdminServiceServer = Some ([], []) \<rparr>
           ''0.0.0.0:8089''],
        Returned (Some (Err ''failed to Start HTTP Server: address already in use'')))"
  by (simp add: serveCmd_RunE_def serveGatewayInsecure_def newGRPCServer_def
        chainedUnaryInterceptors_def newHTTPServer_def mux_Handle_def NewServeMux_def
        errors_Wrap_def net_Listen_def port_of_def example_serve_env_def example_server_cfg_def)

text \<open>
  C5, amended. In secure mode, when reading the certificates, building the
  authentication context, registering the gateway (with the options that the command
  passes) or binding the listener fails, the run aborts and has neither bound an address
  nor started to serve. In insecure mode the same holds when building the authentication
  context or binding the gRPC listener fails; when registering the gateway (with the
  options that the command passes) or binding the HTTP listener fails after that, the
  run aborts with the gRPC listener bound and the goroutine that serves the gRPC server
  started, and nothing else.
\<close>

theorem serve_startup_failure:
  "((if Secure (Security cfg)
     then isl (GetSslCredentials env (CertificateFile (Ssl (Security cfg)))
                 (KeyFile (Ssl (Security cfg))))
          \<or> (UseAuth (Security cfg) \<and> isl (NewAuthenticationContext env (Oauth (Security cfg))))
          \<or> (\<exists>certPool cert.
                GetSslCredentials env (CertificateFile (Ssl (Security cfg)))
                  (KeyFile (Ssl (Security cfg))) = Inr (certPool, cert)
              \<and> RegisterAdminServiceHandlerFromEndpoint env (GetHostAddress cfg)
                  [WithTransportCredentials (GetHostAddress cfg) certPool] \<noteq> None)
          \<or> net_Listen env [] (GetHostAddress cfg) \<noteq> None
     else (UseAuth (Security cfg) \<and> isl (NewAuthenticationContext env (Oauth (Security cfg))))
          \<or> net_Listen env [] (GetGrpcHostAddress cfg) \<noteq> None)
    \<longrightarrow> fst (serveCmd_RunE env cfg) = [] \<and> aborted (snd (serveCmd_RunE env cfg)))
   \<and> (\<not> Secure (Security cfg)
       \<and> \<not> (UseAuth (Security cfg) \<and> isl (NewAuthenticationContext env (Oauth (Security cfg))))
       \<and> net_Listen env [] (GetGrpcHostAddress cfg) = None
       \<and> (RegisterAdminServiceHandlerFromEndpoint env (GetGrpcHostAddress cfg) [WithInsecure]
             \<noteq> None
          \<or> net_Listen env [GetGrpcHostAddress cfg] (GetHostAddress cfg) \<noteq> None)
    \<longrightarrow> (\<exists>c grpcServer.
            (case c of
               Some ac \<Rightarrow> UseAuth (Security cfg)
                          \<and> NewAuthenticationContext env (Oauth (Security cfg)) = Inr ac
             | None \<Rightarrow> \<not> UseAuth (Security cfg))
          \<and> newGRPCServer cfg c [] = Inr grpcServer
          \<and> fst (serveCmd_RunE env cfg) =
              [Listening (GetGrpcHostAddress cfg),
               go_grpcServer_Serve grpcServer (GetGrpcHostAddress cfg)])
        \<and> aborted (snd (serveCmd_RunE env cfg)))"
proof -
  have early_secure: "fst (serveGatewaySecure env cfg) = [] \<and> aborted (snd (serveGatewaySecure env cfg))"
    if "isl (GetSslCredentials env (CertificateFile (Ssl (Security cfg)))
                 (KeyFile (Ssl (Security cfg))))
          \<or> (UseAuth (Security cfg) \<and> isl (NewAuthenticationContext env (Oauth (Security cfg))))
          \<or> (\<exists>certPool cert.
                GetSslCredentials env (CertificateFile (Ssl (Security cfg)))
                  (KeyFile (Ssl (Security cfg))) = Inr (certPool, cert)
              \<and> RegisterAdminServiceHandlerFromEndpoint env (GetHostAddress cfg)
                  [WithTransportCredentials (GetHostAddress cfg) certPool] \<noteq> None)
          \<or> net_Listen env [] (GetHostAddress cfg) \<noteq> None"
    using that newHTTPServer_register_fails [of env "GetHostAddress cfg"]
    unfolding serveGatewaySecure_def
    by (auto simp: aborted_def newGRPCServer_def split: sum.splits prod.splits result.splits option.splits)
  have early_insecure: "fst (serveGatewayInsecure env cfg) = [] \<and> aborted (snd (serveGatewayInsecure env cfg))"
    if "(UseAuth (Security cfg) \<and> isl (NewAuthenticationContext env (Oauth (Security cfg))))
          \<or> net_Listen env [] (GetGrpcHostAddress cfg) \<noteq> None"
    using that
    unfolding serveGatewayInsecure_def
    by (auto simp: aborted_def newGRPCServer_def split: sum.splits prod.splits result.splits option.splits)
  have late: "(\<exists>c grpcServer.
            (case c of
               Some ac \<Rightarrow> UseAuth (Security cfg)
                          \<and> NewAuthenticationContext env (Oauth (Security cfg)) = Inr ac
             | None \<Rightarrow> \<not> UseAuth (Security cfg))
          \<and> newGRPCServer cfg c [] = Inr grpcServer
          \<and> fst (serveGatewayInsecure env cfg) =
              [Listening (GetGrpcHostAddress cfg),
               go_grpcServer_Serve grpcServer (GetGrpcHostAddress cfg)])
        \<and> aborted (snd (serveGatewayInsecure env cfg))"
    if n: "\<not> (UseAuth (Security cfg) \<and> isl (NewAuthenticationContext env (Oauth (Security cfg))))"
      and l: "net_Listen env [] (GetGrpcHostAddress cfg) = None"
      and f: "RegisterAdminServiceHandlerFromEndpoint env (GetGrpcHostAddress cfg) [WithInsecure]
                \<noteq> None
              \<or> net_Listen env [GetGrpcHostAddress cfg] (GetHostAddress cfg) \<noteq> None"
  proof -
    let ?auth = "if UseAuth (Security cfg)
                 then (case NewAuthenticationContext env (Oauth (Security cfg)) of
                         Inl err \<Rightarrow> Inl err
                       | Inr ac \<Rightarrow> Inr (Some ac))
                 else Inr None"
    have "\<exists>c. ?auth = Inr c"
      using n by (cases "NewAuthenticationContext env (Oauth (Security cfg))") auto
    then obtain c where auth: "?auth = Inr c" by blast
    have cc: "case c of
               Some ac \<Rightarrow> UseAuth (Security cfg)
                          \<and> NewAuthenticationContext env (Oauth (Security cfg)) = Inr ac
             | None \<Rightarrow> \<not> UseAuth (Security cfg)"
      using auth by (auto split: if_splits sum.splits option.splits)
    obtain grpcServer where gs: "newGRPCServer cfg c [] = Inr grpcServer"
      by (simp add: newGRPCServer_def)
    have r: "fst (serveGatewayInsecure env cfg) =
              [Listening (GetGrpcHostAddress cfg),
               go_grpcServer_Serve grpcServer (GetGrpcHostAddress cfg)]
            \<and> aborted (snd (serveGatewayInsecure env cfg))"
    proof (cases "newHTTPServer env cfg c (GetGrpcHostAddress cfg) [WithInsecure]")
      case (Ok httpServer)
      then have "RegisterAdminServiceHandlerFromEndpoint env (GetGrpcHostAddress cfg) [WithInsecure]
                 = None"
        using newHTTPServer_register_fails [of env "GetGrpcHostAddress cfg" "[WithInsecure]" cfg c httpServer]
        by blast
      then obtain err where "net_Listen env [GetGrpcHostAddress cfg] (GetHostAddress cfg) = Some err"
        using f by auto
      then show ?thesis
        unfolding serveGatewayInsecure_def using auth gs l Ok
        by (simp add: aborted_def split del: if_split)
    next
      case (Fail err)
      then show ?thesis
        unfolding serveGatewayInsecure_def using auth gs l
        by (simp add: aborted_def split del: if_split)
    next
      case (Panic msg)
      then show ?thesis
        unfolding serveGatewayInsecure_def using auth gs l
        by (simp add: aborted_def split del: if_split)
    qed
    show ?thesis using cc gs r by blast
  qed
  show ?thesis
    using early_secure early_insecure late by (simp add: serveCmd_RunE_def)
qed

theorem serve_startup_failure_witness:
  "fst (serveCmd_RunE (example_serve_env True [''0.0.0.0:8088''])
          (example_server_cfg True True None)) = []
   \<and> aborted (snd (serveCmd_RunE (example_serve_env True [''0.0.0.0:8088''])
                     (example_server_cfg True True None)))
   \<and> fst (serveCmd_RunE (example_serve_env False []) (example_server_cfg True True None)) = []
   \<and> aborted (snd (serveCmd_RunE (example_serve_env False [])
                     (example_server_cfg True True None)))
   \<and> fst (serveCmd_RunE (example_serve_env True [''0.0.0.0:8089''])
            (example_server_cfg False False None)) = []
   \<and> aborted (snd (serveCmd_RunE (example_serve_env True [''0.0.0.0:8089''])
                     (example_server_cfg False False None)))
   \<and> (\<exists>grpcServer.
         fst (serveCmd_RunE (example_serve_env False []) (example_server_cfg False False None))
         = [Listening ''0.0.0.0:8089'', go_grpcServer_Serve grpcServer ''0.0.0.0:8089''])
   \<and> aborted (snd (serveCmd_RunE (example_serve_env False [])
                     (example_server_cfg False False None)))
   \<and> (\<exists>grpcServer.
         fst (serveCmd_RunE (example_serve_env True []) example_one_port_cfg)
         = [Listening ''0.0.0.0:8088'', go_grpcServer_Serve grpcServer ''0.0.0.0:8088''])
   \<and> aborted (snd (serveCmd_RunE (example_serve_env True []) example_one_port_cfg))"
proof -
  have 1: "fst (serveCmd_RunE (example_serve_env True [''0.0.0.0:8088''])
          (example_server_cfg True True None)) = []
   \<and> aborted (snd (serveCmd_RunE (example_serve_env True [''0.0.0.0:8088''])
                     (example_server_cfg True True None)))"
    using serve_startup_failure [of "example_server_cfg True True None"
            "example_serve_env True [''0.0.0.0:8088'']"]
    by (simp add: example_serve_env_def example_server_cfg_def net_Listen_def)
  have 2: "fst (serveCmd_RunE (example_serve_env False []) (example_server_cfg True True None)) = []
   \<and> aborted (snd (serveCmd_RunE (example_serve_env False [])
                     (example_server_cfg True True None)))"
    using serve_startup_failure [of "example_server_cfg True True None"
            "example_serve_env False []"]
    by (simp add: example_serve_env_def example_server_cfg_def net_Listen_def)
  have 3: "fst (serveCmd_RunE (example_serve_env True [''0.0.0.0:8089''])
            (example_server_cfg False False None)) = []
   \<and> aborted (snd (serveCmd_RunE (example_serve_env True [''0.0.0.0:8089''])
                     (example_server_cfg False False None)))"
    using serve_startup_failure [of "example_server_cfg False False None"
            "example_serve_env True [''0.0.0.0:8089'']"]
    by (simp add: example_serve_env_def example_server_cfg_def net_Listen_def)
  have 4: "(\<exists>grpcServer.
         fst (serveCmd_RunE (example_serve_env False []) (example_server_cfg False False None))
         = [Listening ''0.0.0.0:8089'', go_grpcServer_Serve grpcServer ''0.0.0.0:8089''])
   \<and> aborted (snd (serveCmd_RunE (example_serve_env False [])
                     (example_server_cfg False False None)))"
    using serve_startup_failure [of "example_server_cfg False False None"
            "example_serve_env False []"]
    by (auto simp add: example_serve_env_def example_server_cfg_def net_Listen_def)
  have 5: "(\<exists>grpcServer.
         fst (serveCmd_RunE (example_serve_env True []) example_one_port_cfg)
         = [Listening ''0.0.0.0:8088'', go_grpcServer_Serve grpcServer ''0.0.0.0:8088''])
   \<and> aborted (snd (serveCmd_RunE (example_serve_env True []) example_one_port_cfg))"
    using serve_startup_failure [of example_one_port_cfg "example_serve_env True []"]
    by (auto simp add: example_serve_env_def example_server_cfg_def example_one_port_cfg_def
          net_Listen_def port_of_def)
  show ?thesis using 1 2 3 4 5 by simp
qed

section \<open>Properties of the userinfo request\<close>

text \<open>
  C7. When the response has status 200 and its body is a JSON object whose members
  \<open>sub\<close>, \<open>name\<close>, \<open>preferred_username\<close>, \<open>given_name\<close> and \<open>family_name\<close> are
  strings, \<open>postToIdp\<close> succeeds and returns exactly these five strings. When the
  status is not 200, it fails, whatever the body is.
\<close>

theorem postToIdp_decodes:
  assumes "client \<lparr> idp_URL = userInfoUrl, idp_Authorization = ''Bearer '' @ accessToken \<rparr> = response"
  shows "(idp_StatusCode response = 200
          \<and> idp_Body response = Some (JObject members)
          \<and> map_of members ''sub'' = Some (JString s)
          \<and> map_of members ''name'' = Some (JString n)
          \<and> map_of members ''preferred_username'' = Some (JString p)
          \<and> map_of members ''given_name'' = Some (JString g)
          \<and> map_of members ''family_name'' = Some (JString f)
          \<longrightarrow> postToIdp client userInfoUrl accessToken =
                Inr \<lparr> Sub = s, Name = n, PreferredUsername = p, GivenName = g, FamilyName = f \<rparr>)
       \<and> (idp_StatusCode response \<noteq> 200
          \<longrightarrow> postToIdp client userInfoUrl accessToken =
                Inl (IdentityProviderRejected (idp_StatusCode response)))"
  using assms
  by (simp add: postToIdp_def decode_UserInfoResponse_def string_field_def Let_def)

theorem postToIdp_decodes_witness:
  "postToIdp (\<lambda>request. \<lparr> idp_StatusCode = 200, idp_Body = Some example_userinfo_body \<rparr>)
     ''https://lyft.okta.com/oauth2/ausc5wmjw96cRKvTd1t7/v1/userinfo'' ''j.w.t''
   = Inr \<lparr> Sub = ''abc123'', Name = ''John Smith'', PreferredUsername = ''jsmith@company.com'',
           GivenName = ''John'', FamilyName = ''Smith'' \<rparr>
   \<and> postToIdp (\<lambda>request. \<lparr> idp_StatusCode = 401, idp_Body = Some example_userinfo_body \<rparr>)
       ''https://lyft.okta.com/oauth2/ausc5wmjw96cRKvTd1t7/v1/userinfo'' ''j.w.t''
     = Inl (IdentityProviderRejected 401)"
proof -
  let ?ok = "\<lambda>request :: idp_Request. \<lparr> idp_StatusCode = 200, idp_Body = Some example_userinfo_body \<rparr>"
  let ?no = "\<lambda>request :: idp_Request. \<lparr> idp_StatusCode = 401, idp_Body = Some example_userinfo_body \<rparr>"
  let ?url = "''https://lyft.okta.com/oauth2/ausc5wmjw96cRKvTd1t7/v1/userinfo''"
  have 1: "postToIdp ?ok ?url ''j.w.t''
           = Inr \<lparr> Sub = ''abc123'', Name = ''John Smith'', PreferredUsername = ''jsmith@company.com'',
                   GivenName = ''John'', FamilyName = ''Smith'' \<rparr>"
    using postToIdp_decodes [where client = ?ok and userInfoUrl = ?url and accessToken = "''j.w.t''"
            and response = "\<lparr> idp_StatusCode = 200, idp_Body = Some example_userinfo_body \<rparr>"
            and members = "[(''sub'', JString ''abc123''),
              (''name'', JString ''John Smith''),
              (''preferred_username'', JString ''jsmith@company.com''),
              (''given_name'', JString ''John''),
              (''family_name'', JString ''Smith'')]"
            and s = "''abc123''" and n = "''John Smith''" and p = "''jsmith@company.com''"
            and g = "''John''" and f = "''Smith''"]
    by (simp add: example_userinfo_body_def)
  have 2: "postToIdp ?no ?url ''j.w.t'' = Inl (IdentityProviderRejected 401)"
    using postToIdp_decodes [where client = ?no and userInfoUrl = ?url and accessToken = "''j.w.t''"
            and response = "\<lparr> idp_StatusCode = 401, idp_Body = Some example_userinfo_body \<rparr>"]
    by simp
  show ?thesis using 1 2 by simp
qed

end
